theory Spec2Isabelle
  imports Complex_Main "HOL-Library.Sublist"
begin

section \<open>Data model\<close>

text \<open>
  The classes of \<^verbatim>\<open>app.data.models\<close> are modelled as records holding the fields that the
  modelled functions read or write. Python text is a \<open>string\<close>; characters are code points
  below 256. Counters and citation ids are natural numbers: the code only ever produces them
  from \<^verbatim>\<open>enumerate\<close>, \<^verbatim>\<open>len\<close> and \<^verbatim>\<open>int\<close> of a digit run. Floats are modelled as
  reals.
\<close>

record source =
  source_id :: string
  url :: string
  title :: string
  author :: "string option"
  published_date :: "string option"
  content_hash :: string
  fetch_date :: string  \<comment> \<open>\<^verbatim>\<open>fetch_timestamp.strftime("%Y-%m-%d")\<close>, already rendered\<close>

record citation =
  citation_id :: nat
  cit_source_id :: string
  cit_title :: string
  cit_author :: "string option"
  cit_published_date :: "string option"
  cit_url :: string
  accessed_date :: string

section \<open>Source deduplication (\<^verbatim>\<open>app/tools/scrape.py\<close>)\<close>

text \<open>
  The loop of \<^verbatim>\<open>deduplicate_sources\<close>: the state is \<^verbatim>\<open>seen_hashes\<close>, \<^verbatim>\<open>seen_ids\<close> and
  \<^verbatim>\<open>unique\<close>; a source is appended, and its two keys recorded, only when neither key has
  been recorded before.
\<close>

fun dedup_loop :: "string set \<Rightarrow> string set \<Rightarrow> source list \<Rightarrow> source list \<Rightarrow> source list" where
  "dedup_loop seen_hashes seen_ids unique [] = unique"
| "dedup_loop seen_hashes seen_ids unique (s # rest) =
     (if content_hash s \<notin> seen_hashes \<and> source_id s \<notin> seen_ids
      then dedup_loop (insert (content_hash s) seen_hashes) (insert (source_id s) seen_ids)
             (unique @ [s]) rest
      else dedup_loop seen_hashes seen_ids unique rest)"

definition deduplicate_sources :: "source list \<Rightarrow> source list" where
  "deduplicate_sources sources = dedup_loop {} {} [] sources"

text \<open>
  The reading of "retains exactly the first occurrence of each content hash and each source
  id" that the deduplication is compared with: a source is kept when no earlier source of the
  input has its content hash and no earlier source of the input has its source id.
\<close>

fun first_occurrences_spec :: "string set \<Rightarrow> string set \<Rightarrow> source list \<Rightarrow> source list" where
  "first_occurrences_spec hs ids [] = []"
| "first_occurrences_spec hs ids (s # rest) =
     (if content_hash s \<notin> hs \<and> source_id s \<notin> ids
      then s # first_occurrences_spec (insert (content_hash s) hs) (insert (source_id s) ids) rest
      else first_occurrences_spec (insert (content_hash s) hs) (insert (source_id s) ids) rest)"

definition mk_source :: "string \<Rightarrow> string \<Rightarrow> source" where
  "mk_source i h = \<lparr>source_id = i, url = ''u'', title = ''t'', author = None,
     published_date = None, content_hash = h, fetch_date = ''2024-01-01''\<rparr>"

section \<open>Bibliography (\<^verbatim>\<open>app/tools/citation.py\<close>)\<close>

text \<open>
  The first loop of \<^verbatim>\<open>create_citation_map\<close>, \<^verbatim>\<open>for i, source in enumerate(sources, 1)\<close>,
  with the counter \<open>i\<close> and the list built so far as its state.
\<close>

definition mk_citation :: "nat \<Rightarrow> source \<Rightarrow> citation" where
  "mk_citation i s = \<lparr>citation_id = i, cit_source_id = source_id s, cit_title = title s,
     cit_author = author s, cit_published_date = published_date s, cit_url = url s,
     accessed_date = fetch_date s\<rparr>"

fun bibliography_loop :: "nat \<Rightarrow> citation list \<Rightarrow> source list \<Rightarrow> citation list" where
  "bibliography_loop i bibliography [] = bibliography"
| "bibliography_loop i bibliography (s # rest) =
     bibliography_loop (Suc i) (bibliography @ [mk_citation i s]) rest"

definition build_bibliography :: "source list \<Rightarrow> citation list" where
  "build_bibliography sources = bibliography_loop 1 [] sources"

section \<open>Text helpers\<close>

text \<open>
  \<^verbatim>\<open>str.lower()\<close> on code points below 256: the ASCII capitals and the Latin-1 capitals
  (\<open>0xC0\<close> to \<open>0xDE\<close> except the multiplication sign \<open>0xD7\<close>) move up by 32.
\<close>

definition lower_char :: "char \<Rightarrow> char" where
  "lower_char c =
     (let n = (of_char c :: nat) in
      if (65 \<le> n \<and> n \<le> 90) \<or> (192 \<le> n \<and> n \<le> 222 \<and> n \<noteq> 215)
      then char_of (n + 32) else c)"

definition lower :: "string \<Rightarrow> string" where
  "lower s = map lower_char s"

text \<open>\<^verbatim>\<open>sub in s\<close> for strings: \<open>sub\<close> occurs in \<open>s\<close> as a contiguous block.\<close>

fun str_in :: "string \<Rightarrow> string \<Rightarrow> bool" where
  "str_in sub [] = (sub = [])"
| "str_in sub (c # cs) = (prefix sub (c # cs) \<or> str_in sub cs)"

text \<open>\<^verbatim>\<open>str(n)\<close> for a non-negative integer: its decimal digits.\<close>

fun str_nat :: "nat \<Rightarrow> string" where
  "str_nat n = (if n < 10 then [''0123456789'' ! n] else str_nat (n div 10) @ [''0123456789'' ! (n mod 10)])"

section \<open>Floats\<close>

text \<open>
  A Python float is a real number, one of the two infinities or NaN. An ordering test with
  NaN on either side is false; this is what \<^verbatim>\<open><\<close>, \<^verbatim>\<open>>\<close>, \<^verbatim>\<open><=\<close> and \<^verbatim>\<open>>=\<close> compute.
\<close>

datatype pyfloat = Float real | PosInf | NegInf | NaN

fun float_lt :: "pyfloat \<Rightarrow> pyfloat \<Rightarrow> bool" where
  "float_lt (Float x) (Float y) = (x < y)"
| "float_lt (Float x) PosInf = True"
| "float_lt NegInf (Float y) = True"
| "float_lt NegInf PosInf = True"
| "float_lt a b = False"

definition float_gt :: "pyfloat \<Rightarrow> pyfloat \<Rightarrow> bool" where
  "float_gt a b = float_lt b a"

definition float_le :: "pyfloat \<Rightarrow> pyfloat \<Rightarrow> bool" where
  "float_le a b = (a \<noteq> NaN \<and> b \<noteq> NaN \<and> \<not> float_lt b a)"

definition float_ge :: "pyfloat \<Rightarrow> pyfloat \<Rightarrow> bool" where
  "float_ge a b = float_le b a"

text \<open>
  The arithmetic of floats rounds, and it belongs to Python: it is a parameter of the model.
  \<open>round_float\<close> takes the exact quotient of two integers to the float that \<^verbatim>\<open>/\<close> returns;
  \<open>float_add\<close> and \<open>float_div\<close> are \<^verbatim>\<open>+\<close> and \<^verbatim>\<open>/\<close> on floats.
\<close>

record float_arith =
  round_float :: "real \<Rightarrow> real"
  float_add :: "pyfloat \<Rightarrow> pyfloat \<Rightarrow> pyfloat"
  float_div :: "pyfloat \<Rightarrow> pyfloat \<Rightarrow> pyfloat"

section \<open>Quality gate (\<^verbatim>\<open>app/tools/quality.py\<close>)\<close>

record quality_metrics =
  citation_coverage :: pyfloat
  unsupported_claim_rate :: pyfloat
  avg_fact_confidence :: pyfloat
  reading_level :: pyfloat
  total_claims :: nat
  total_sources :: nat
  total_citations :: nat

text \<open>
  The renderings of a float by the format specifications \<^verbatim>\<open>.1%\<close>, \<^verbatim>\<open>.2f\<close> and \<^verbatim>\<open>.0f\<close>
  belong to Python, not to the repository: they are parameters of the model.
\<close>

record float_format =
  fmt_pct1 :: "pyfloat \<Rightarrow> string"
  fmt_f2 :: "pyfloat \<Rightarrow> string"
  fmt_f0 :: "pyfloat \<Rightarrow> string"

text \<open>
  \<^verbatim>\<open>check_quality_gates\<close>: the three local variables \<^verbatim>\<open>passed\<close>, \<^verbatim>\<open>failures\<close> and
  \<^verbatim>\<open>recommendations\<close> are threaded through the four \<^verbatim>\<open>if\<close> statements in the order of the
  source.
\<close>

type_synonym gate_acc = "bool \<times> string list \<times> string list"

text \<open>The f-strings and string constants of the function, one definition each.\<close>

definition coverage_failure :: "float_format \<Rightarrow> pyfloat \<Rightarrow> pyfloat \<Rightarrow> string" where
  "coverage_failure fmt actual threshold =
     ''Citation coverage '' @ fmt_pct1 fmt actual @ '' below threshold '' @ fmt_pct1 fmt threshold"

definition unsupported_failure :: "float_format \<Rightarrow> pyfloat \<Rightarrow> pyfloat \<Rightarrow> string" where
  "unsupported_failure fmt actual threshold =
     ''Unsupported claim rate '' @ fmt_pct1 fmt actual @ '' exceeds threshold '' @ fmt_pct1 fmt threshold"

definition confidence_failure :: "float_format \<Rightarrow> pyfloat \<Rightarrow> pyfloat \<Rightarrow> string" where
  "confidence_failure fmt actual threshold =
     ''Average fact confidence '' @ fmt_f2 fmt actual @ '' below threshold '' @ fmt_f2 fmt threshold"

definition coverage_recommendation :: string where
  "coverage_recommendation = ''Add citations to uncited sentences or mark them as common knowledge''"

definition unsupported_recommendation :: string where
  "unsupported_recommendation = ''Find additional sources for unsupported claims or remove them''"

definition confidence_recommendation :: string where
  "confidence_recommendation =
     ''Strengthen claims with better evidence or use more authoritative sources''"

definition difficult_recommendation :: "float_format \<Rightarrow> pyfloat \<Rightarrow> string" where
  "difficult_recommendation fmt level =
     ''Reading level ('' @ fmt_f0 fmt level @ '') is difficult; '' @
     ''consider simplifying language for broader audience''"

definition simple_recommendation :: "float_format \<Rightarrow> pyfloat \<Rightarrow> string" where
  "simple_recommendation fmt level =
     ''Reading level ('' @ fmt_f0 fmt level @ '') may be too simple; '' @
     ''consider adding more sophisticated language if appropriate for audience''"

definition check_coverage :: "float_format \<Rightarrow> quality_metrics \<Rightarrow> pyfloat \<Rightarrow> gate_acc \<Rightarrow> gate_acc" where
  "check_coverage fmt metrics min_citation_coverage acc =
     (case acc of (passed, failures, recommendations) \<Rightarrow>
        if float_lt (citation_coverage metrics) min_citation_coverage
        then (False,
              failures @ [coverage_failure fmt (citation_coverage metrics) min_citation_coverage],
              recommendations @ [coverage_recommendation])
        else acc)"

definition check_unsupported :: "float_format \<Rightarrow> quality_metrics \<Rightarrow> pyfloat \<Rightarrow> gate_acc \<Rightarrow> gate_acc" where
  "check_unsupported fmt metrics max_unsupported_claims acc =
     (case acc of (passed, failures, recommendations) \<Rightarrow>
        if float_gt (unsupported_claim_rate metrics) max_unsupported_claims
        then (False,
              failures @ [unsupported_failure fmt (unsupported_claim_rate metrics) max_unsupported_claims],
              recommendations @ [unsupported_recommendation])
        else acc)"

definition check_confidence :: "float_format \<Rightarrow> quality_metrics \<Rightarrow> pyfloat \<Rightarrow> gate_acc \<Rightarrow> gate_acc" where
  "check_confidence fmt metrics min_fact_confidence acc =
     (case acc of (passed, failures, recommendations) \<Rightarrow>
        if float_lt (avg_fact_confidence metrics) min_fact_confidence
        then (False,
              failures @ [confidence_failure fmt (avg_fact_confidence metrics) min_fact_confidence],
              recommendations @ [confidence_recommendation])
        else acc)"

definition check_reading_level :: "float_format \<Rightarrow> quality_metrics \<Rightarrow> gate_acc \<Rightarrow> gate_acc" where
  "check_reading_level fmt metrics acc =
     (case acc of (passed, failures, recommendations) \<Rightarrow>
        if float_lt (reading_level metrics) (Float 50)
        then (passed, failures,
              recommendations @ [difficult_recommendation fmt (reading_level metrics)])
        else if float_gt (reading_level metrics) (Float 80)
        then (passed, failures,
              recommendations @ [simple_recommendation fmt (reading_level metrics)])
        else acc)"

definition check_quality_gates :: "float_format \<Rightarrow> quality_metrics \<Rightarrow> pyfloat \<Rightarrow> pyfloat \<Rightarrow> pyfloat \<Rightarrow> gate_acc" where
  "check_quality_gates fmt metrics min_citation_coverage max_unsupported_claims min_fact_confidence =
     check_reading_level fmt metrics
       (check_confidence fmt metrics min_fact_confidence
         (check_unsupported fmt metrics max_unsupported_claims
           (check_coverage fmt metrics min_citation_coverage (True, [], []))))"

text \<open>The number of thresholds that the metrics violate.\<close>

definition violations :: "quality_metrics \<Rightarrow> pyfloat \<Rightarrow> pyfloat \<Rightarrow> pyfloat \<Rightarrow> nat" where
  "violations metrics min_citation_coverage max_unsupported_claims min_fact_confidence =
     (if float_lt (citation_coverage metrics) min_citation_coverage then 1 else 0) +
     (if float_gt (unsupported_claim_rate metrics) max_unsupported_claims then 1 else 0) +
     (if float_lt (avg_fact_confidence metrics) min_fact_confidence then 1 else 0)"

definition fmt_demo :: float_format where
  "fmt_demo = \<lparr>fmt_pct1 = (\<lambda>x. ''p''), fmt_f2 = (\<lambda>x. ''f''), fmt_f0 = (\<lambda>x. ''r'')\<rparr>"

definition mk_metrics :: "pyfloat \<Rightarrow> pyfloat \<Rightarrow> pyfloat \<Rightarrow> pyfloat \<Rightarrow> quality_metrics" where
  "mk_metrics cov unsup conf rl = \<lparr>citation_coverage = cov, unsupported_claim_rate = unsup,
     avg_fact_confidence = conf, reading_level = rl, total_claims = 20, total_sources = 5,
     total_citations = 5\<rparr>"

section \<open>Judge (\<^verbatim>\<open>app/agents/judge.py\<close>)\<close>

record gate_decision =
  passed :: bool
  gate_name :: string
  metrics :: quality_metrics
  failure_reasons :: "string list"
  recommendations :: "string list"
  retry_count :: int

definition fixable_issues :: "string list" where
  "fixable_issues = [''citation coverage'', ''unsupported claims'', ''fact confidence'']"

text \<open>
  \<^verbatim>\<open>should_retry\<close>; the two nested \<^verbatim>\<open>any(...)\<close> are \<open>list_ex\<close>, which like \<^verbatim>\<open>any\<close> is false
  on the empty list.
\<close>

definition is_fixable :: "string list \<Rightarrow> bool" where
  "is_fixable reasons =
     list_ex (\<lambda>failure. list_ex (\<lambda>issue. str_in issue (lower failure)) fixable_issues) reasons"

definition should_retry :: "gate_decision \<Rightarrow> int \<Rightarrow> bool" where
  "should_retry decision max_retries =
     (if passed decision then False
      else if retry_count decision \<ge> max_retries then False
      else if is_fixable (failure_reasons decision) then True
      else False)"

definition mk_decision :: "bool \<Rightarrow> string list \<Rightarrow> int \<Rightarrow> gate_decision" where
  "mk_decision p reasons n = \<lparr>passed = p, gate_name = ''quality_gate'',
     metrics = mk_metrics (Float (8/10)) (Float (1/10)) (Float (6/10)) (Float 65), failure_reasons = reasons,
     recommendations = [''Add more citations''], retry_count = n\<rparr>"

section \<open>Citation mapper (\<^verbatim>\<open>app/tools/citation.py\<close>)\<close>

text \<open>
  The exceptions that the modelled code raises or catches, each with the text that \<^verbatim>\<open>str(e)\<close>
  gives: \<^verbatim>\<open>ValueError\<close> from \<^verbatim>\<open>str.index\<close>, \<^verbatim>\<open>KeyError\<close> from a missing key of the
  state, \<^verbatim>\<open>asyncio.TimeoutError\<close>, the error of the graph engine when its step limit is
  reached, and any other exception of an agent.
\<close>

datatype py_error =
    ValueError string
  | KeyError string
  | TimeoutError
  | GraphRecursionError string
  | Exception string

text \<open>Sequencing of two computations that may raise: the first exception ends both.\<close>

definition and_then :: "'e + 'a \<Rightarrow> ('a \<Rightarrow> 'e + 'b) \<Rightarrow> 'e + 'b" where
  "and_then r f = (case r of Inl e \<Rightarrow> Inl e | Inr x \<Rightarrow> f x)"

record sentence_citation =
  sentence :: string
  start_char :: nat
  end_char :: nat
  citation_ids :: "nat list"
  is_common_knowledge :: bool

record citation_map =
  bibliography :: "citation list"
  sentence_mappings :: "sentence_citation list"
  coverage_rate :: pyfloat

text \<open>
  Character classes on code points below 256: \<^verbatim>\<open>str.isspace\<close> (which is also what \<^verbatim>\<open>\s\<close>
  matches and what \<^verbatim>\<open>str.strip()\<close> removes), the decimal digits of \<^verbatim>\<open>\d\<close>, and the
  class \<^verbatim>\<open>[.!?]\<close>.
\<close>

definition is_space :: "char \<Rightarrow> bool" where
  "is_space c =
     (let n = (of_char c :: nat) in (9 \<le> n \<and> n \<le> 13) \<or> (28 \<le> n \<and> n \<le> 32) \<or> n = 133 \<or> n = 160)"

definition is_digit :: "char \<Rightarrow> bool" where
  "is_digit c = (let n = (of_char c :: nat) in 48 \<le> n \<and> n \<le> 57)"

definition is_terminal :: "char \<Rightarrow> bool" where
  "is_terminal c = (c = CHR ''.'' \<or> c = CHR ''!'' \<or> c = CHR ''?'')"

definition strip :: "string \<Rightarrow> string" where
  "strip s = rev (dropWhile is_space (rev (dropWhile is_space s)))"

text \<open>
  \<^verbatim>\<open>int(num)\<close> of a run of decimal digits. From Python 3.11 on, which the package requires,
  the conversion of more than 4300 digits raises \<^verbatim>\<open>ValueError\<close>.
\<close>

definition digits_val :: "string \<Rightarrow> nat" where
  "digits_val ds = foldl (\<lambda>a c. 10 * a + (of_char c - 48)) 0 ds"

definition max_str_digits :: nat where
  "max_str_digits = 4300"

definition int_limit_message :: "nat \<Rightarrow> string" where
  "int_limit_message n =
     ''Exceeds the limit (4300 digits) for integer string conversion: value has '' @ str_nat n @
     '' digits; use sys.set_int_max_str_digits() to increase the limit''"

definition int_of_digits :: "string \<Rightarrow> py_error + nat" where
  "int_of_digits ds =
     (if length ds > max_str_digits then Inl (ValueError (int_limit_message (length ds)))
      else Inr (digits_val ds))"

text \<open>
  \<^verbatim>\<open>s.find(sub)\<close> and \<^verbatim>\<open>text.index(sub, start)\<close>: the first position at or after
  \<open>start\<close> where \<open>sub\<close> occurs; \<^verbatim>\<open>index\<close> raises \<^verbatim>\<open>ValueError\<close> when there is none.
\<close>

fun find_str :: "string \<Rightarrow> string \<Rightarrow> nat option" where
  "find_str sub [] = (if sub = [] then Some 0 else None)"
| "find_str sub (c # cs) =
     (if prefix sub (c # cs) then Some 0 else map_option Suc (find_str sub cs))"

definition index_from :: "string \<Rightarrow> string \<Rightarrow> nat \<Rightarrow> nat option" where
  "index_from text sub start =
     (if start \<le> length text then map_option (\<lambda>i. start + i) (find_str sub (drop start text))
      else None)"

text \<open>
  \<^verbatim>\<open>re.finditer(r'([^.!?]+[.!?]+)', text)\<close>, as the list of (start, matched text). From the
  current position the characters of \<^verbatim>\<open>[.!?]\<close> cannot start a match and are passed over;
  the match is the longest run outside the class followed by the longest run inside it. When
  the text ends before a character of the class, there is no further match.
\<close>

function sentence_matches :: "nat \<Rightarrow> string \<Rightarrow> (nat \<times> string) list" where
  "sentence_matches pos txt =
     (let skipped = takeWhile is_terminal txt;
          rest = dropWhile is_terminal txt;
          body = takeWhile (\<lambda>c. \<not> is_terminal c) rest;
          after = dropWhile (\<lambda>c. \<not> is_terminal c) rest;
          puncts = takeWhile is_terminal after
      in if body = [] \<or> puncts = [] then []
         else (pos + length skipped, body @ puncts) #
              sentence_matches (pos + length skipped + length body + length puncts)
                (dropWhile is_terminal after))"
  by pat_completeness auto
termination
proof (relation "measure (\<lambda>(pos, cs). length cs)")
  show "wf (measure (\<lambda>(pos, cs). length cs))" by simp
next
  fix pos :: nat and cs skipped rest body after puncts :: string
  assume rest: "rest = dropWhile is_terminal cs"
    and body: "body = takeWhile (\<lambda>c. \<not> is_terminal c) rest"
    and after: "after = dropWhile (\<lambda>c. \<not> is_terminal c) rest"
    and ne: "\<not> (body = [] \<or> puncts = [])"
  have "length (dropWhile is_terminal after) \<le> length after"
    by (rule length_dropWhile_le)
  moreover have "length after < length rest"
  proof -
    have "length rest = length body + length after"
      unfolding body after by (metis length_append takeWhile_dropWhile_id)
    with ne show ?thesis by simp
  qed
  moreover have "length rest \<le> length cs"
    unfolding rest by (rule length_dropWhile_le)
  ultimately show "((pos + length skipped + length body + length puncts, dropWhile is_terminal after),
      (pos, cs)) \<in> measure (\<lambda>(pos, cs). length cs)"
    by simp
qed

text \<open>The loop of \<^verbatim>\<open>split_into_sentences\<close> over the matches, with \<^verbatim>\<open>last_end\<close> as state.\<close>

fun sentences_loop ::
  "string \<Rightarrow> nat \<Rightarrow> (string \<times> nat \<times> nat) list \<Rightarrow> (nat \<times> string) list
     \<Rightarrow> py_error + (nat \<times> (string \<times> nat \<times> nat) list)" where
  "sentences_loop text last_end sentences [] = Inr (last_end, sentences)"
| "sentences_loop text last_end sentences ((p, m) # ms) =
     (let sentence = strip m in
      if sentence \<noteq> [] then
        (case index_from text sentence last_end of
           None \<Rightarrow> Inl (ValueError ''substring not found'')
         | Some start \<Rightarrow>
             sentences_loop text (start + length sentence)
               (sentences @ [(sentence, start, start + length sentence)]) ms)
      else sentences_loop text last_end sentences ms)"

definition split_into_sentences :: "string \<Rightarrow> py_error + (string \<times> nat \<times> nat) list" where
  "split_into_sentences text =
     (case sentences_loop text 0 [] (sentence_matches 0 text) of
        Inl e \<Rightarrow> Inl e
      | Inr (last_end, sentences) \<Rightarrow>
          if last_end < length text then
            (let remaining = strip (drop last_end text) in
             if remaining \<noteq> [] then Inr (sentences @ [(remaining, last_end, length text)])
             else Inr sentences)
          else Inr sentences)"

text \<open>
  \<^verbatim>\<open>re.finditer(r'\[(\d+(?:\s*,\s*\d+)*)\]', text)\<close>. After the first digit run,
  \<open>more_numbers\<close> reads the repetitions of \<^verbatim>\<open>\s*,\s*\d+\<close>: it returns the digit runs read and
  the text left, which is the input itself when no repetition matches. Every quantifier of
  the pattern is followed by a character it cannot match, so the greedy reading is the only
  one. The digit runs are the pieces of \<^verbatim>\<open>group(1).split(',')\<close> after \<^verbatim>\<open>strip()\<close>.
\<close>

function more_numbers :: "string \<Rightarrow> string list \<times> string" where
  "more_numbers s =
     (case dropWhile is_space s of
        [] \<Rightarrow> ([], s)
      | c # s2 \<Rightarrow>
          if c = CHR '','' \<and> takeWhile is_digit (dropWhile is_space s2) \<noteq> [] then
            (case more_numbers (dropWhile is_digit (dropWhile is_space s2)) of
               (nums, r) \<Rightarrow> (takeWhile is_digit (dropWhile is_space s2) # nums, r))
          else ([], s))"
  by pat_completeness auto
termination
proof (relation "measure length")
  show "wf (measure length)" by simp
next
  fix s s2 :: "char list" and c :: char
  assume eq: "dropWhile is_space s = c # s2"
  have "length (dropWhile is_digit (dropWhile is_space s2)) \<le> length s2"
    by (meson length_dropWhile_le order_trans)
  moreover have "length (c # s2) \<le> length s"
    using length_dropWhile_le [of is_space s] unfolding eq .
  ultimately show "(dropWhile is_digit (dropWhile is_space s2), s) \<in> measure length"
    by simp
qed

definition match_marker :: "string \<Rightarrow> (string list \<times> string) option" where
  "match_marker s =
     (case s of
        [] \<Rightarrow> None
      | c # s1 \<Rightarrow>
          if c = CHR ''['' \<and> takeWhile is_digit s1 \<noteq> [] then
            (case more_numbers (dropWhile is_digit s1) of
               (nums, r) \<Rightarrow>
                 (case r of
                    [] \<Rightarrow> None
                  | d # r' \<Rightarrow>
                      if d = CHR '']'' then Some (takeWhile is_digit s1 # nums, r')
                      else None))
          else None)"

text \<open>The list comprehension \<^verbatim>\<open>[int(num.strip()) for num in ...]\<close>.\<close>

fun parse_ids :: "string list \<Rightarrow> py_error + nat list" where
  "parse_ids [] = Inr []"
| "parse_ids (num # nums) =
     and_then (int_of_digits num) (\<lambda>i.
     and_then (parse_ids nums) (\<lambda>ids. Inr (i # ids)))"

text \<open>
  The scan of \<^verbatim>\<open>finditer\<close>: a match at the current position is recorded, with its numbers
  converted, and the scan goes on behind it; otherwise the scan moves one character on. The
  fuel is the length of the text, and every step shortens the text left.
\<close>

fun scan_markers :: "nat \<Rightarrow> nat \<Rightarrow> string \<Rightarrow> py_error + (nat \<times> nat list) list" where
  "scan_markers 0 pos s = Inr []"
| "scan_markers (Suc fuel) pos s =
     (case s of
        [] \<Rightarrow> Inr []
      | c # cs \<Rightarrow>
          (case match_marker s of
             Some (nums, r) \<Rightarrow>
               and_then (parse_ids nums) (\<lambda>ids.
               and_then (scan_markers fuel (pos + (length s - length r)) r) (\<lambda>markers.
               Inr ((pos, ids) # markers)))
           | None \<Rightarrow> scan_markers fuel (Suc pos) cs))"

definition extract_citation_markers :: "string \<Rightarrow> py_error + (nat \<times> nat list) list" where
  "extract_citation_markers text = scan_markers (length text) 0 text"

text \<open>\<^verbatim>\<open>s.replace(old, '')\<close> for a non-empty \<open>old\<close>, with the length of \<open>s\<close> as fuel.\<close>

fun remove_all :: "nat \<Rightarrow> string \<Rightarrow> string \<Rightarrow> string" where
  "remove_all 0 old s = s"
| "remove_all (Suc fuel) old s =
     (case s of
        [] \<Rightarrow> []
      | c # cs \<Rightarrow>
          if prefix old s then remove_all fuel old (drop (length old) s)
          else c # remove_all fuel old cs)"

definition common_tag :: string where
  "common_tag = ''[COMMON]''"

text \<open>The body of the loop over the sentences of \<^verbatim>\<open>create_citation_map\<close>.\<close>

definition sentence_ids :: "string \<Rightarrow> nat \<Rightarrow> nat \<Rightarrow> py_error + nat list" where
  "sentence_ids text start end =
     and_then (extract_citation_markers (take (end - start) (drop start text))) (\<lambda>markers.
     Inr (sort (remdups (concat (map snd markers)))))"

definition map_sentence ::
  "string \<Rightarrow> string list \<Rightarrow> string \<times> nat \<times> nat \<Rightarrow> py_error + sentence_citation" where
  "map_sentence text common_knowledge_phrases triple =
     (case triple of (sent, start, end) \<Rightarrow>
        and_then (sentence_ids text start end) (\<lambda>ids.
        let is_common = list_ex (\<lambda>phrase. str_in (lower phrase) (lower sent)) common_knowledge_phrases
        in Inr (if str_in common_tag sent
                then \<lparr>sentence = strip (remove_all (length sent) common_tag sent),
                      start_char = start, end_char = end, citation_ids = ids,
                      is_common_knowledge = True\<rparr>
                else \<lparr>sentence = sent, start_char = start, end_char = end, citation_ids = ids,
                      is_common_knowledge = is_common\<rparr>)))"

fun mapping_loop ::
  "string \<Rightarrow> string list \<Rightarrow> sentence_citation list \<Rightarrow> nat \<Rightarrow> (string \<times> nat \<times> nat) list
     \<Rightarrow> py_error + sentence_citation list \<times> nat" where
  "mapping_loop text phrases mappings cited_count [] = Inr (mappings, cited_count)"
| "mapping_loop text phrases mappings cited_count (triple # rest) =
     and_then (map_sentence text phrases triple) (\<lambda>mapping.
     mapping_loop text phrases (mappings @ [mapping])
       (if citation_ids mapping \<noteq> [] \<or> is_common_knowledge mapping
        then cited_count + 1 else cited_count) rest)"

text \<open>
  \<^verbatim>\<open>create_citation_map\<close>. The coverage is \<^verbatim>\<open>cited_count / total_sentences\<close>, the float nearest
  to the quotient of the two counts, or \<^verbatim>\<open>0.0\<close>.
\<close>

definition create_citation_map ::
  "float_arith \<Rightarrow> string \<Rightarrow> source list \<Rightarrow> string list \<Rightarrow> py_error + citation_map" where
  "create_citation_map ar text sources common_knowledge_phrases =
     and_then (split_into_sentences text) (\<lambda>sentences.
     and_then (mapping_loop text common_knowledge_phrases [] 0 sentences) (\<lambda>counted.
     Inr \<lparr>bibliography = build_bibliography sources,
          sentence_mappings = fst counted,
          coverage_rate =
            (if length sentences > 0
             then Float (round_float ar (real (snd counted) / real (length sentences)))
             else Float 0)\<rparr>))"

section \<open>Citation validator (\<^verbatim>\<open>app/tools/citation.py\<close>)\<close>

definition invalid_issue :: "nat \<Rightarrow> sentence_citation \<Rightarrow> string" where
  "invalid_issue cit_id mapping =
     ''Invalid citation ID ['' @ str_nat cit_id @ ''] in sentence: '' @ take 50 (sentence mapping) @ ''...''"

definition uncited_issue :: "nat \<Rightarrow> string" where
  "uncited_issue n =
     str_nat n @ '' sentences lack citations and are not marked as common knowledge''"

fun ids_loop :: "nat set \<Rightarrow> sentence_citation \<Rightarrow> string list \<Rightarrow> nat list \<Rightarrow> string list" where
  "ids_loop valid_ids mapping issues [] = issues"
| "ids_loop valid_ids mapping issues (cit_id # rest) =
     ids_loop valid_ids mapping
       (if cit_id \<notin> valid_ids then issues @ [invalid_issue cit_id mapping] else issues) rest"

fun issues_loop :: "nat set \<Rightarrow> string list \<Rightarrow> sentence_citation list \<Rightarrow> string list" where
  "issues_loop valid_ids issues [] = issues"
| "issues_loop valid_ids issues (mapping # rest) =
     issues_loop valid_ids (ids_loop valid_ids mapping issues (citation_ids mapping)) rest"

definition uncited :: "citation_map \<Rightarrow> sentence_citation list" where
  "uncited cm =
     filter (\<lambda>m. citation_ids m = [] \<and> \<not> is_common_knowledge m) (sentence_mappings cm)"

definition validate_citations :: "citation_map \<Rightarrow> string list" where
  "validate_citations cm =
     (let issues = issues_loop (set (map citation_id (bibliography cm))) [] (sentence_mappings cm)
      in if uncited cm \<noteq> [] then issues @ [uncited_issue (length (uncited cm))] else issues)"

text \<open>The article text of the validator's test, and the excerpt its issue quotes.\<close>

definition bad_citation_text :: string where
  "bad_citation_text = ''Cited [1]. Bad [99].''"

definition bad_citation_issue :: string where
  "bad_citation_issue = ''Invalid citation ID [99] in sentence: Bad [99]....''"

section \<open>Pipeline state (\<^verbatim>\<open>app/graph/state.py\<close>)\<close>

text \<open>
  Modelled from the spec: the module \<^verbatim>\<open>app.data.models\<close> is not among the sources, so the
  classes below carry the fields that the workflow and the metric calculator read. A topic
  specification, an outline, a claim and the SEO metadata are only handed from one agent to
  the next: each is a value identified by a text. The values of \<^verbatim>\<open>VerdictType\<close> are the
  strings that \<^verbatim>\<open>evaluate_quality\<close> compares with. A \<^verbatim>\<open>datetime\<close> is a number of seconds.
\<close>

type_synonym datetime = real

datatype topic_spec = TopicSpec string

datatype outline = Outline string

datatype claim = Claim string

datatype seo_metadata = SEOMetadata string

datatype verdict_type = SUPPORTED | REFUTED | NEEDS_MORE_EVIDENCE | COMMON_KNOWLEDGE

fun verdict_value :: "verdict_type \<Rightarrow> string" where
  "verdict_value SUPPORTED = ''supported''"
| "verdict_value REFUTED = ''refuted''"
| "verdict_value NEEDS_MORE_EVIDENCE = ''needs-more-evidence''"
| "verdict_value COMMON_KNOWLEDGE = ''common-knowledge''"

record draft_section =
  claims :: "claim list"

record verdict =
  verdict_of :: verdict_type
  confidence :: pyfloat

record source_pack =
  sources :: "source list"

record article =
  content :: string
  citations :: citation_map
  word_count :: int

text \<open>
  The fields of \<^verbatim>\<open>RunMetrics\<close> that share their name with a key of the state carry the
  prefix \<open>rm\<close>.
\<close>

record run_metrics =
  rm_run_id :: string
  quality :: quality_metrics
  time_elapsed_seconds :: real
  total_tokens :: int
  groq_calls :: int
  rm_started_at :: datetime
  rm_completed_at :: datetime
  rm_status :: string

text \<open>
  \<^verbatim>\<open>PipelineState\<close> is a \<^verbatim>\<open>TypedDict\<close> with \<^verbatim>\<open>total=False\<close>: every key may be absent, which is
  \<open>None\<close> here. The keys \<^verbatim>\<open>completed_at\<close> and \<^verbatim>\<open>error\<close> may be present with the value
  \<^verbatim>\<open>None\<close>, which is \<open>Some None\<close>. The keys \<^verbatim>\<open>retry_count\<close> and \<^verbatim>\<open>should_retry\<close> carry the
  prefix \<open>state\<close>, the plain names being the field of the gate decision and the function of
  the judge.
\<close>

record pipeline_state =
  run_id :: "string option"
  topic_spec :: "topic_spec option"
  started_at :: "datetime option"
  outline :: "outline option"
  source_pack :: "source_pack option"
  indexed_chunks :: "int option"
  draft_sections :: "draft_section list option"
  verdicts :: "verdict list option"
  article :: "article option"
  seo_metadata :: "seo_metadata option"
  gate_decision :: "gate_decision option"
  quality_metrics :: "quality_metrics option"
  state_retry_count :: "int option"
  state_should_retry :: "bool option"
  artifacts :: "(string \<times> string) list option"
  logs :: "string list option"
  run_metrics :: "run_metrics option"
  completed_at :: "datetime option option"
  status :: "string option"
  error :: "string option option"

text \<open>\<^verbatim>\<open>PipelineState()\<close> without keyword arguments: the dictionary with no key.\<close>

definition PipelineState :: pipeline_state where
  "PipelineState = \<lparr>run_id = None, topic_spec = None, started_at = None, outline = None,
     source_pack = None, indexed_chunks = None, draft_sections = None, verdicts = None,
     article = None, seo_metadata = None, gate_decision = None, quality_metrics = None,
     state_retry_count = None, state_should_retry = None, artifacts = None, logs = None,
     run_metrics = None, completed_at = None, status = None, error = None\<rparr>"

text \<open>\<^verbatim>\<open>state[key]\<close> and \<^verbatim>\<open>state.get(key, default)\<close>.\<close>

definition getitem :: "string \<Rightarrow> 'a option \<Rightarrow> py_error + 'a" where
  "getitem key v = (case v of None \<Rightarrow> Inl (KeyError key) | Some x \<Rightarrow> Inr x)"

definition get_or :: "'a option \<Rightarrow> 'a \<Rightarrow> 'a" where
  "get_or v d = (case v of None \<Rightarrow> d | Some x \<Rightarrow> x)"

section \<open>Settings and the world outside (\<^verbatim>\<open>app/config.py\<close>)\<close>

record settings =
  min_citation_coverage :: real
  max_unsupported_claims :: real
  min_fact_confidence :: real
  target_reading_level :: pyfloat
  max_pipeline_time_seconds :: int

definition default_settings :: settings where
  "default_settings = \<lparr>min_citation_coverage = 95 / 100, max_unsupported_claims = 5 / 100,
     min_fact_confidence = 7 / 10, target_reading_level = Float 60, max_pipeline_time_seconds = 600\<rparr>"

text \<open>
  The agents call language models and the network, the clock is read, and the graph engine
  and \<^verbatim>\<open>textstat\<close> are libraries: all of these are parameters. A call of an agent takes the
  number \<open>t\<close> of node executions that the run has completed, so that the same call may be
  answered differently each time, and it returns its result or raises.
  \<open>finish_time t\<close> is the time in seconds, counted from the start of \<^verbatim>\<open>asyncio.wait_for\<close>, at
  which the node execution number \<open>t\<close> ends when it is left to run; \<open>utcnow t\<close> is the clock as
  read during that execution; \<open>recursion_limit\<close> is the step limit of the engine, which
  raises its error when a run needs that many node executions or more.
\<close>

record env =
  settings :: settings
  float_fmt :: float_format
  arith :: float_arith
  plan_article :: "nat \<Rightarrow> topic_spec \<Rightarrow> py_error + outline"
  harvest_sources :: "nat \<Rightarrow> outline \<Rightarrow> nat option \<Rightarrow> nat option \<Rightarrow> py_error + source_pack"
  index_sources :: "nat \<Rightarrow> source list \<Rightarrow> py_error + int"
  summarize_article :: "nat \<Rightarrow> outline \<Rightarrow> source list \<Rightarrow> py_error + draft_section list"
  verify_claims :: "nat \<Rightarrow> claim list \<Rightarrow> py_error + verdict list"
  write_article ::
    "nat \<Rightarrow> outline \<Rightarrow> draft_section list \<Rightarrow> source list \<Rightarrow> verdict list \<Rightarrow> py_error + article"
  edit_article :: "nat \<Rightarrow> article \<Rightarrow> pyfloat \<Rightarrow> py_error + article"
  optimize_seo :: "nat \<Rightarrow> article \<Rightarrow> py_error + seo_metadata"
  get_usage_stats :: "nat \<Rightarrow> py_error + int \<times> int"
  flesch_reading_ease :: "string \<Rightarrow> pyfloat option"
  utcnow :: "nat \<Rightarrow> datetime"
  finish_time :: "nat \<Rightarrow> real"
  recursion_limit :: nat
  recursion_message :: string

definition create_initial_state :: "env \<Rightarrow> string \<Rightarrow> topic_spec \<Rightarrow> pipeline_state" where
  "create_initial_state w rid spec =
     PipelineState\<lparr>run_id := Some rid, topic_spec := Some spec, started_at := Some (utcnow w 0),
       state_retry_count := Some 0, state_should_retry := Some False, artifacts := Some [],
       logs := Some [], status := Some ''running'', error := Some None\<rparr>"

section \<open>Quality metrics (\<^verbatim>\<open>app/tools/quality.py\<close>)\<close>

text \<open>\<^verbatim>\<open>re.sub\<close> of the citation markers by the empty string, with the length as fuel.\<close>

fun remove_markers :: "nat \<Rightarrow> string \<Rightarrow> string" where
  "remove_markers 0 s = s"
| "remove_markers (Suc fuel) s =
     (case s of
        [] \<Rightarrow> []
      | c # cs \<Rightarrow>
          (case match_marker s of
             Some (ids, r) \<Rightarrow> remove_markers fuel r
           | None \<Rightarrow> c # remove_markers fuel cs))"

text \<open>
  The rate is the quotient of two integers, rounded once. The mean is \<^verbatim>\<open>sum\<close> of the
  confidences, added one by one from zero, divided by the number of verdicts, every
  operation rounding.
\<close>

definition calculate_unsupported_claim_rate :: "float_arith \<Rightarrow> verdict list \<Rightarrow> pyfloat" where
  "calculate_unsupported_claim_rate ar vs =
     (if vs = [] then Float 0
      else Float (round_float ar
        (real (length (filter (\<lambda>v. verdict_of v \<in> {REFUTED, NEEDS_MORE_EVIDENCE}) vs)) /
         real (length vs))))"

definition calculate_average_confidence :: "float_arith \<Rightarrow> verdict list \<Rightarrow> pyfloat" where
  "calculate_average_confidence ar vs =
     (if vs = [] then Float 0
      else float_div ar (foldl (float_add ar) (Float 0) (map confidence vs))
             (Float (real (length vs))))"

definition calculate_reading_level :: "env \<Rightarrow> string \<Rightarrow> pyfloat" where
  "calculate_reading_level w article_text =
     (case flesch_reading_ease w (remove_markers (length article_text) article_text) of
        Some score \<Rightarrow> score
      | None \<Rightarrow> Float 60)"

definition calculate_quality_metrics ::
  "env \<Rightarrow> citation_map \<Rightarrow> verdict list \<Rightarrow> string \<Rightarrow> nat \<Rightarrow> quality_metrics" where
  "calculate_quality_metrics w cmap vs article_text sources_count =
     \<lparr>citation_coverage = coverage_rate cmap,
      unsupported_claim_rate = calculate_unsupported_claim_rate (arith w) vs,
      avg_fact_confidence = calculate_average_confidence (arith w) vs,
      reading_level = calculate_reading_level w article_text,
      total_claims = length vs,
      total_sources = sources_count,
      total_citations = length (bibliography cmap)\<rparr>"

section \<open>Gate evaluation (\<^verbatim>\<open>app/agents/judge.py\<close>)\<close>

definition needs_evidence_recommendation :: "nat \<Rightarrow> string" where
  "needs_evidence_recommendation n =
     ''Find additional sources for '' @ str_nat n @ '' claims marked as '' @
     [CHR 0x27] @ ''needs-more-evidence'' @ [CHR 0x27]"

definition refuted_recommendation :: "nat \<Rightarrow> string" where
  "refuted_recommendation n = ''Remove or revise '' @ str_nat n @ '' refuted claims''"

definition evaluate_quality :: "env \<Rightarrow> quality_metrics \<Rightarrow> verdict list \<Rightarrow> int \<Rightarrow> gate_decision" where
  "evaluate_quality w qm vs retries =
     (case check_quality_gates (float_fmt w) qm (Float (min_citation_coverage (settings w)))
             (Float (max_unsupported_claims (settings w)))
             (Float (min_fact_confidence (settings w))) of
        (ok, failures, recs) \<Rightarrow>
          let needs_evidence = filter (\<lambda>v. verdict_value (verdict_of v) = ''needs-more-evidence'') vs;
              refuted = filter (\<lambda>v. verdict_value (verdict_of v) = ''refuted'') vs;
              recs1 = (if \<not> ok \<and> needs_evidence \<noteq> []
                       then recs @ [needs_evidence_recommendation (length needs_evidence)]
                       else recs);
              recs2 = (if \<not> ok \<and> refuted \<noteq> []
                       then recs1 @ [refuted_recommendation (length refuted)]
                       else recs1)
          in \<lparr>passed = ok, gate_name = ''quality_gate'', metrics = qm,
              failure_reasons = failures, recommendations = recs2, retry_count = retries\<rparr>)"

section \<open>Nodes of the workflow (\<^verbatim>\<open>app/graph/workflow.py\<close>)\<close>

text \<open>
  The log entries. The check mark and the arrow that open them are outside Latin-1: they are
  written as the three bytes of their UTF-8 encoding.
\<close>

definition check_mark :: string where
  "check_mark = [char_of (226 :: nat), char_of (156 :: nat), char_of (147 :: nat), CHR '' '']"

definition retry_mark :: string where
  "retry_mark = [char_of (226 :: nat), char_of (134 :: nat), char_of (187 :: nat), CHR '' '']"

definition str_int :: "int \<Rightarrow> string" where
  "str_int i = (if i < 0 then ''-'' @ str_nat (nat (- i)) else str_nat (nat i))"

definition plan_log :: string where
  "plan_log = check_mark @ ''Planning complete''"

definition source_log :: "nat \<Rightarrow> string" where
  "source_log n = check_mark @ ''Sourced '' @ str_nat n @ '' documents''"

definition index_log :: "int \<Rightarrow> string" where
  "index_log n = check_mark @ ''Indexed '' @ str_int n @ '' chunks''"

definition summarize_log :: "nat \<Rightarrow> string" where
  "summarize_log n = check_mark @ ''Drafted '' @ str_nat n @ '' sections''"

definition factcheck_log :: "nat \<Rightarrow> string" where
  "factcheck_log n = check_mark @ ''Verified '' @ str_nat n @ '' claims''"

definition write_log :: "int \<Rightarrow> string" where
  "write_log n = check_mark @ ''Article written ('' @ str_int n @ '' words)''"

definition edit_log :: string where
  "edit_log = check_mark @ ''Article edited and refined''"

definition seo_log :: string where
  "seo_log = check_mark @ ''SEO metadata generated''"

definition judge_log :: "bool \<Rightarrow> string" where
  "judge_log ok = check_mark @ ''Quality gate: '' @ (if ok then ''PASSED'' else ''FAILED'')"

definition finalize_log :: string where
  "finalize_log = check_mark @ ''Pipeline complete''"

definition retry_log :: "int \<Rightarrow> nat \<Rightarrow> string" where
  "retry_log new_retry_count n =
     retry_mark @ ''Retry '' @ str_int new_retry_count @ '': Added '' @ str_nat n @ '' more sources''"

text \<open>
  Every node first logs \<^verbatim>\<open>state["run_id"]\<close>, then reads its inputs in the order of the source,
  calls its agent and returns a \<^verbatim>\<open>PipelineState\<close> holding only the keys it sets.
\<close>

definition plan_node :: "env \<Rightarrow> nat \<Rightarrow> pipeline_state \<Rightarrow> py_error + pipeline_state" where
  "plan_node w t state =
     and_then (getitem ''run_id'' (run_id state)) (\<lambda>_.
     and_then (getitem ''topic_spec'' (topic_spec state)) (\<lambda>spec.
     and_then (plan_article w t spec) (\<lambda>planned.
     Inr (PipelineState\<lparr>outline := Some planned,
            logs := Some (get_or (logs state) [] @ [plan_log])\<rparr>))))"

definition source_node :: "env \<Rightarrow> nat \<Rightarrow> pipeline_state \<Rightarrow> py_error + pipeline_state" where
  "source_node w t state =
     and_then (getitem ''run_id'' (run_id state)) (\<lambda>_.
     and_then (getitem ''outline'' (outline state)) (\<lambda>planned.
     and_then (harvest_sources w t planned None None) (\<lambda>pack.
     Inr (PipelineState\<lparr>source_pack := Some pack,
            logs := Some (get_or (logs state) [] @ [source_log (length (sources pack))])\<rparr>))))"

definition index_node :: "env \<Rightarrow> nat \<Rightarrow> pipeline_state \<Rightarrow> py_error + pipeline_state" where
  "index_node w t state =
     and_then (getitem ''run_id'' (run_id state)) (\<lambda>_.
     and_then (getitem ''source_pack'' (source_pack state)) (\<lambda>pack.
     and_then (index_sources w t (sources pack)) (\<lambda>num_chunks.
     Inr (PipelineState\<lparr>indexed_chunks := Some num_chunks,
            logs := Some (get_or (logs state) [] @ [index_log num_chunks])\<rparr>))))"

definition summarize_node :: "env \<Rightarrow> nat \<Rightarrow> pipeline_state \<Rightarrow> py_error + pipeline_state" where
  "summarize_node w t state =
     and_then (getitem ''run_id'' (run_id state)) (\<lambda>_.
     and_then (getitem ''outline'' (outline state)) (\<lambda>planned.
     and_then (getitem ''source_pack'' (source_pack state)) (\<lambda>pack.
     and_then (summarize_article w t planned (sources pack)) (\<lambda>drafts.
     Inr (PipelineState\<lparr>draft_sections := Some drafts,
            logs := Some (get_or (logs state) [] @ [summarize_log (length drafts)])\<rparr>)))))"

definition factcheck_node :: "env \<Rightarrow> nat \<Rightarrow> pipeline_state \<Rightarrow> py_error + pipeline_state" where
  "factcheck_node w t state =
     and_then (getitem ''run_id'' (run_id state)) (\<lambda>_.
     let all_claims = concat (map claims (get_or (draft_sections state) [])) in
     and_then (verify_claims w t all_claims) (\<lambda>checked.
     Inr (PipelineState\<lparr>verdicts := Some checked,
            logs := Some (get_or (logs state) [] @ [factcheck_log (length checked)])\<rparr>)))"

definition write_node :: "env \<Rightarrow> nat \<Rightarrow> pipeline_state \<Rightarrow> py_error + pipeline_state" where
  "write_node w t state =
     and_then (getitem ''run_id'' (run_id state)) (\<lambda>_.
     and_then (getitem ''outline'' (outline state)) (\<lambda>planned.
     and_then (getitem ''draft_sections'' (draft_sections state)) (\<lambda>drafts.
     and_then (getitem ''source_pack'' (source_pack state)) (\<lambda>pack.
     and_then (getitem ''verdicts'' (verdicts state)) (\<lambda>checked.
     and_then (write_article w t planned drafts (sources pack) checked) (\<lambda>written.
     Inr (PipelineState\<lparr>article := Some written,
            logs := Some (get_or (logs state) [] @ [write_log (word_count written)])\<rparr>)))))))"

definition edit_node :: "env \<Rightarrow> nat \<Rightarrow> pipeline_state \<Rightarrow> py_error + pipeline_state" where
  "edit_node w t state =
     and_then (getitem ''run_id'' (run_id state)) (\<lambda>_.
     and_then (getitem ''article'' (article state)) (\<lambda>written.
     and_then (edit_article w t written (target_reading_level (settings w))) (\<lambda>edited_article.
     Inr (PipelineState\<lparr>article := Some edited_article,
            logs := Some (get_or (logs state) [] @ [edit_log])\<rparr>))))"

definition seo_node :: "env \<Rightarrow> nat \<Rightarrow> pipeline_state \<Rightarrow> py_error + pipeline_state" where
  "seo_node w t state =
     and_then (getitem ''run_id'' (run_id state)) (\<lambda>_.
     and_then (getitem ''article'' (article state)) (\<lambda>written.
     and_then (optimize_seo w t written) (\<lambda>seo.
     Inr (PipelineState\<lparr>seo_metadata := Some seo,
            logs := Some (get_or (logs state) [] @ [seo_log])\<rparr>))))"

text \<open>The judge calls \<^verbatim>\<open>should_retry\<close> with the literal \<^verbatim>\<open>max_retries=2\<close>.\<close>

definition judge_node :: "env \<Rightarrow> nat \<Rightarrow> pipeline_state \<Rightarrow> py_error + pipeline_state" where
  "judge_node w t state =
     and_then (getitem ''run_id'' (run_id state)) (\<lambda>_.
     and_then (getitem ''article'' (article state)) (\<lambda>written.
     and_then (getitem ''verdicts'' (verdicts state)) (\<lambda>checked.
     and_then (getitem ''source_pack'' (source_pack state)) (\<lambda>pack.
     let qm = calculate_quality_metrics w (citations written) checked (content written)
                (length (sources pack));
         decision = evaluate_quality w qm checked (get_or (state_retry_count state) 0);
         retry = should_retry decision 2
     in Inr (PipelineState\<lparr>quality_metrics := Some qm, gate_decision := Some decision,
               state_should_retry := Some retry,
               logs := Some (get_or (logs state) [] @ [judge_log (passed decision)])\<rparr>)))))"

definition finalize_node :: "env \<Rightarrow> nat \<Rightarrow> pipeline_state \<Rightarrow> py_error + pipeline_state" where
  "finalize_node w t state =
     and_then (getitem ''run_id'' (run_id state)) (\<lambda>rid.
     and_then (get_usage_stats w t) (\<lambda>usage.
     and_then (getitem ''started_at'' (started_at state)) (\<lambda>started.
     and_then (getitem ''quality_metrics'' (quality_metrics state)) (\<lambda>qm.
     and_then (getitem ''gate_decision'' (gate_decision state)) (\<lambda>decision.
     Inr (PipelineState\<lparr>
            run_metrics := Some \<lparr>rm_run_id = rid, quality = qm,
              time_elapsed_seconds = utcnow w t - started,
              total_tokens = fst usage, groq_calls = snd usage,
              rm_started_at = started, rm_completed_at = utcnow w t,
              rm_status = (if passed decision then ''completed''
                           else ''completed_with_warnings'')\<rparr>,
            completed_at := Some (Some (utcnow w t)),
            status := Some ''completed'',
            logs := Some (get_or (logs state) [] @ [finalize_log])\<rparr>))))))"

text \<open>
  \<^verbatim>\<open>retry_node\<close> asks the sourcer for five more sources and puts the longer list into the
  source pack of the state. In Python the pack is one object, changed in place and returned
  under its key; here the changed pack is the value returned.
\<close>

definition retry_node :: "env \<Rightarrow> nat \<Rightarrow> pipeline_state \<Rightarrow> py_error + pipeline_state" where
  "retry_node w t state =
     and_then (getitem ''run_id'' (run_id state)) (\<lambda>_.
     let new_retry_count = get_or (state_retry_count state) 0 + 1 in
     and_then (getitem ''outline'' (outline state)) (\<lambda>planned.
     and_then (harvest_sources w t planned (Some 5) (Some 20)) (\<lambda>additional_sources.
     and_then (getitem ''source_pack'' (source_pack state)) (\<lambda>pack.
     let all_sources = sources pack @ sources additional_sources;
         updated_pack = pack\<lparr>sources := all_sources\<rparr>
     in Inr (PipelineState\<lparr>source_pack := Some updated_pack,
               state_retry_count := Some new_retry_count,
               state_should_retry := Some False,
               logs := Some (get_or (logs state) [] @
                 [retry_log new_retry_count (length (sources additional_sources))])\<rparr>)))))"

definition should_retry_check :: "pipeline_state \<Rightarrow> string" where
  "should_retry_check state =
     (if get_or (state_should_retry state) False then ''retry'' else ''finalize'')"

section \<open>The graph and its execution\<close>

datatype node = Plan | Source | Index | Summarize | Factcheck | Write | Edit | Seo | Judge
  | Retry | Finalize

datatype target = Node node | END

text \<open>
  \<^verbatim>\<open>build_workflow\<close>: the entry point, the plain edges, and the conditional edge of the judge
  with its table from the answers of \<^verbatim>\<open>should_retry_check\<close> to nodes.
\<close>

definition entry_point :: node where
  "entry_point = Plan"

definition judge_targets :: "(string \<times> node) list" where
  "judge_targets = [(''retry'', Retry), (''finalize'', Finalize)]"

fun next_node :: "node \<Rightarrow> pipeline_state \<Rightarrow> py_error + target" where
  "next_node Plan state = Inr (Node Source)"
| "next_node Source state = Inr (Node Index)"
| "next_node Index state = Inr (Node Summarize)"
| "next_node Summarize state = Inr (Node Factcheck)"
| "next_node Factcheck state = Inr (Node Write)"
| "next_node Write state = Inr (Node Edit)"
| "next_node Edit state = Inr (Node Seo)"
| "next_node Seo state = Inr (Node Judge)"
| "next_node Judge state =
     (case map_of judge_targets (should_retry_check state) of
        Some n \<Rightarrow> Inr (Node n)
      | None \<Rightarrow> Inl (KeyError (should_retry_check state)))"
| "next_node Retry state = Inr (Node Index)"
| "next_node Finalize state = Inr END"

fun run_node :: "env \<Rightarrow> nat \<Rightarrow> node \<Rightarrow> pipeline_state \<Rightarrow> py_error + pipeline_state" where
  "run_node w t Plan = plan_node w t"
| "run_node w t Source = source_node w t"
| "run_node w t Index = index_node w t"
| "run_node w t Summarize = summarize_node w t"
| "run_node w t Factcheck = factcheck_node w t"
| "run_node w t Write = write_node w t"
| "run_node w t Edit = edit_node w t"
| "run_node w t Seo = seo_node w t"
| "run_node w t Judge = judge_node w t"
| "run_node w t Retry = retry_node w t"
| "run_node w t Finalize = finalize_node w t"

text \<open>
  The graph engine is a library. As the state declares no reducer, the engine keeps for
  every key the value last returned for it: a key of the delta replaces the key of the state,
  a key absent from the delta is kept.
\<close>

definition update_key :: "'a option \<Rightarrow> 'a option \<Rightarrow> 'a option" where
  "update_key old new = (case new of None \<Rightarrow> old | Some v \<Rightarrow> Some v)"

definition merge :: "pipeline_state \<Rightarrow> pipeline_state \<Rightarrow> pipeline_state" where
  "merge s d =
     \<lparr>run_id = update_key (run_id s) (run_id d),
      topic_spec = update_key (topic_spec s) (topic_spec d),
      started_at = update_key (started_at s) (started_at d),
      outline = update_key (outline s) (outline d),
      source_pack = update_key (source_pack s) (source_pack d),
      indexed_chunks = update_key (indexed_chunks s) (indexed_chunks d),
      draft_sections = update_key (draft_sections s) (draft_sections d),
      verdicts = update_key (verdicts s) (verdicts d),
      article = update_key (article s) (article d),
      seo_metadata = update_key (seo_metadata s) (seo_metadata d),
      gate_decision = update_key (gate_decision s) (gate_decision d),
      quality_metrics = update_key (quality_metrics s) (quality_metrics d),
      state_retry_count = update_key (state_retry_count s) (state_retry_count d),
      state_should_retry = update_key (state_should_retry s) (state_should_retry d),
      artifacts = update_key (artifacts s) (artifacts d),
      logs = update_key (logs s) (logs d),
      run_metrics = update_key (run_metrics s) (run_metrics d),
      completed_at = update_key (completed_at s) (completed_at d),
      status = update_key (status s) (status d),
      error = update_key (error s) (error d)\<rparr>"

text \<open>
  The execution from node \<open>n\<close> in state \<open>s\<close>, as the list of the nodes that completed, each with
  the state after its delta was merged, and the exception that ended the run, if any. The
  node execution number \<open>t\<close> is cancelled when the timeout passes before it ends; the engine
  gives up when the fuel, one less than its step limit, is used and a node is still due.
\<close>

fun steps ::
  "env \<Rightarrow> real \<Rightarrow> nat \<Rightarrow> nat \<Rightarrow> node \<Rightarrow> pipeline_state
     \<Rightarrow> (node \<times> pipeline_state) list \<times> py_error option" where
  "steps w timeout 0 t n s = ([], Some (GraphRecursionError (recursion_message w)))"
| "steps w timeout (Suc fuel) t n s =
     (if finish_time w t > timeout then ([], Some TimeoutError)
      else
        (case run_node w t n s of
           Inl e \<Rightarrow> ([], Some e)
         | Inr delta \<Rightarrow>
             (case next_node n (merge s delta) of
                Inl e \<Rightarrow> ([(n, merge s delta)], Some e)
              | Inr END \<Rightarrow> ([(n, merge s delta)], None)
              | Inr (Node n') \<Rightarrow>
                  (case steps w timeout fuel (Suc t) n' (merge s delta) of
                     (history, r) \<Rightarrow> ((n, merge s delta) # history, r)))))"

definition ainvoke ::
  "env \<Rightarrow> real \<Rightarrow> pipeline_state \<Rightarrow> (node \<times> pipeline_state) list \<times> py_error option" where
  "ainvoke w timeout state = steps w timeout (recursion_limit w - 1) 0 entry_point state"

text \<open>The state that the engine holds after a history: the one accumulated so far.\<close>

definition accumulated :: "pipeline_state \<Rightarrow> (node \<times> pipeline_state) list \<Rightarrow> pipeline_state" where
  "accumulated state history = (if history = [] then state else snd (last history))"

definition str_error :: "py_error \<Rightarrow> string" where
  "str_error e =
     (case e of
        ValueError msg \<Rightarrow> msg
      | KeyError key \<Rightarrow> [CHR 0x27] @ key @ [CHR 0x27]
      | TimeoutError \<Rightarrow> []
      | GraphRecursionError msg \<Rightarrow> msg
      | Exception msg \<Rightarrow> msg)"

definition timeout_message :: "int \<Rightarrow> string" where
  "timeout_message timeout = ''Pipeline exceeded timeout of '' @ str_int timeout @ '' seconds''"

text \<open>
  \<^verbatim>\<open>run_pipeline\<close>. The first log call, outside the \<^verbatim>\<open>try\<close>, needs the key \<^verbatim>\<open>run_id\<close>. Both
  \<^verbatim>\<open>except\<close> branches start from \<^verbatim>\<open>dict(state)\<close>, where \<^verbatim>\<open>state\<close> is the argument of the
  function; the first one catches \<^verbatim>\<open>asyncio.TimeoutError\<close> whether it comes from
  \<^verbatim>\<open>wait_for\<close> or from inside a node.
\<close>

definition run_pipeline :: "env \<Rightarrow> pipeline_state \<Rightarrow> py_error + pipeline_state" where
  "run_pipeline w state =
     and_then (getitem ''run_id'' (run_id state)) (\<lambda>_.
     let timeout = max_pipeline_time_seconds (settings w) in
     (case ainvoke w (real_of_int timeout) state of
        (history, None) \<Rightarrow> Inr (accumulated state history)
      | (history, Some TimeoutError) \<Rightarrow>
          Inr (state\<lparr>status := Some ''failed'',
                 error := Some (Some (timeout_message timeout)),
                 completed_at := Some (Some (utcnow w (length history)))\<rparr>)
      | (history, Some e) \<Rightarrow>
          Inr (state\<lparr>status := Some ''failed'',
                 error := Some (Some (str_error e)),
                 completed_at := Some (Some (utcnow w (length history)))\<rparr>)))"

section \<open>Runs of the workflow: notions used in the statements\<close>

definition returns :: "'e + 'a \<Rightarrow> bool" where
  "returns r = (case r of Inl e \<Rightarrow> False | Inr x \<Rightarrow> True)"

text \<open>No call of an agent raises, whatever its arguments and whenever it is made.\<close>

definition agents_return :: "env \<Rightarrow> bool" where
  "agents_return w \<longleftrightarrow>
     (\<forall>t spec. returns (plan_article w t spec)) \<and>
     (\<forall>t planned a b. returns (harvest_sources w t planned a b)) \<and>
     (\<forall>t ss. returns (index_sources w t ss)) \<and>
     (\<forall>t planned ss. returns (summarize_article w t planned ss)) \<and>
     (\<forall>t cs. returns (verify_claims w t cs)) \<and>
     (\<forall>t planned drafts ss vs. returns (write_article w t planned drafts ss vs)) \<and>
     (\<forall>t written level. returns (edit_article w t written level)) \<and>
     (\<forall>t written. returns (optimize_seo w t written)) \<and>
     (\<forall>t. returns (get_usage_stats w t))"

text \<open>The keys that the nodes from \<open>n\<close> on read without a default.\<close>

definition sourced :: "pipeline_state \<Rightarrow> bool" where
  "sourced s \<longleftrightarrow>
     run_id s \<noteq> None \<and> started_at s \<noteq> None \<and> outline s \<noteq> None \<and> source_pack s \<noteq> None"

fun available :: "node \<Rightarrow> pipeline_state \<Rightarrow> bool" where
  "available Plan s =
     (run_id s \<noteq> None \<and> started_at s \<noteq> None \<and> topic_spec s \<noteq> None)"
| "available Source s = (run_id s \<noteq> None \<and> started_at s \<noteq> None \<and> outline s \<noteq> None)"
| "available Index s = sourced s"
| "available Summarize s = sourced s"
| "available Factcheck s = (sourced s \<and> draft_sections s \<noteq> None)"
| "available Write s = (sourced s \<and> draft_sections s \<noteq> None \<and> verdicts s \<noteq> None)"
| "available Edit s = (sourced s \<and> verdicts s \<noteq> None \<and> article s \<noteq> None)"
| "available Seo s = (sourced s \<and> verdicts s \<noteq> None \<and> article s \<noteq> None)"
| "available Judge s = (sourced s \<and> verdicts s \<noteq> None \<and> article s \<noteq> None)"
| "available Retry s = sourced s"
| "available Finalize s =
     (sourced s \<and> quality_metrics s \<noteq> None \<and> gate_decision s \<noteq> None)"

text \<open>The pass from indexing to the judge, and the path of a run with two retries.\<close>

definition pass_nodes :: "node list" where
  "pass_nodes = [Index, Summarize, Factcheck, Write, Edit, Seo, Judge]"

definition two_retries_path :: "node list" where
  "two_retries_path =
     [Plan, Source] @ pass_nodes @ [Retry] @ pass_nodes @ [Retry] @ pass_nodes @ [Finalize]"

text \<open>
  A world for the examples: every agent answers at once with a fixed value, except that the
  coverage of the article written and edited at time \<open>t\<close> is \<open>cov t\<close> and that the node
  execution \<open>t\<close> ends at \<open>fin t\<close>.
\<close>

definition exact_arith :: float_arith where
  "exact_arith =
     \<lparr>round_float = (\<lambda>x. x),
      float_add = (\<lambda>a b. case (a, b) of (Float x, Float y) \<Rightarrow> Float (x + y) | _ \<Rightarrow> NaN),
      float_div = (\<lambda>a b. case (a, b) of (Float x, Float y) \<Rightarrow> Float (x / y) | _ \<Rightarrow> NaN)\<rparr>"

definition demo_pack :: source_pack where
  "demo_pack = \<lparr>sources = [mk_source ''s1'' ''h1'']\<rparr>"

definition demo_article :: "real \<Rightarrow> article" where
  "demo_article c =
     \<lparr>content = ''Text.'',
      citations = \<lparr>bibliography = [], sentence_mappings = [], coverage_rate = Float c\<rparr>,
      word_count = 1\<rparr>"

definition demo_env :: "(nat \<Rightarrow> real) \<Rightarrow> (nat \<Rightarrow> real) \<Rightarrow> env" where
  "demo_env cov fin =
     \<lparr>settings = default_settings,
      float_fmt = fmt_demo,
      arith = exact_arith,
      plan_article = (\<lambda>t spec. Inr (Outline ''o'')),
      harvest_sources = (\<lambda>t planned a b. Inr demo_pack),
      index_sources = (\<lambda>t ss. Inr 3),
      summarize_article = (\<lambda>t planned ss. Inr [\<lparr>claims = [Claim ''c'']\<rparr>]),
      verify_claims = (\<lambda>t cs. Inr [\<lparr>verdict_of = SUPPORTED, confidence = Float (9 / 10)\<rparr>]),
      write_article = (\<lambda>t planned drafts ss vs. Inr (demo_article (cov t))),
      edit_article = (\<lambda>t written level. Inr (demo_article (cov t))),
      optimize_seo = (\<lambda>t written. Inr (SEOMetadata ''m'')),
      get_usage_stats = (\<lambda>t. Inr (100, 3)),
      flesch_reading_ease = (\<lambda>s. Some (Float 65)),
      utcnow = (\<lambda>t. real t),
      finish_time = fin,
      recursion_limit = 30,
      recursion_message = ''Recursion limit reached''\<rparr>"

definition demo_state :: pipeline_state where
  "demo_state = create_initial_state (demo_env (\<lambda>t. 1) (\<lambda>t. 0)) ''run'' (TopicSpec ''topic'')"

text \<open>The article never reaches the coverage asked for, and no node is slow.\<close>

definition failing_env :: env where
  "failing_env = demo_env (\<lambda>t. 1 / 2) (\<lambda>t. real t)"

text \<open>The plan is made in one second; the sourcing would take a thousand.\<close>

definition slow_env :: env where
  "slow_env = demo_env (\<lambda>t. 1) (\<lambda>t. if t = 0 then 1 else 1000)"

text \<open>A state in which one retry has been made and one log entry written.\<close>

definition retry_state :: pipeline_state where
  "retry_state = demo_state\<lparr>outline := Some (Outline ''o''), source_pack := Some demo_pack,
     state_retry_count := Some 1, logs := Some [''first'']\<rparr>"

section \<open>Properties of the deduplication\<close>

lemma dedup_loop_filter:
  "dedup_loop hs ids acc xs = acc @ dedup_loop hs ids [] xs"
proof (induction xs arbitrary: hs ids acc)
  case Nil
  show ?case by simp
next
  case (Cons s rest)
  show ?case
    using Cons.IH [of "insert (content_hash s) hs" "insert (source_id s) ids" "acc @ [s]"]
      Cons.IH [of "insert (content_hash s) hs" "insert (source_id s) ids" "[s]"]
      Cons.IH [of hs ids acc]
    by simp
qed

lemma dedup_loop_Cons:
  "dedup_loop hs ids [] (s # rest) =
     (if content_hash s \<notin> hs \<and> source_id s \<notin> ids
      then s # dedup_loop (insert (content_hash s) hs) (insert (source_id s) ids) [] rest
      else dedup_loop hs ids [] rest)"
  using dedup_loop_filter [of "insert (content_hash s) hs" "insert (source_id s) ids" "[s]" rest]
  by simp

lemma dedup_loop_subseq: "subseq (dedup_loop hs ids [] xs) xs"
proof (induction xs arbitrary: hs ids)
  case Nil
  show ?case by simp
next
  case (Cons s rest)
  show ?case
    using Cons.IH [of "insert (content_hash s) hs" "insert (source_id s) ids"]
      list_emb_Cons [OF Cons.IH [of hs ids], of s]
    by (simp add: dedup_loop_Cons del: dedup_loop.simps)
qed

lemma dedup_loop_keys_fresh:
  "x \<in> set (dedup_loop hs ids [] xs) \<Longrightarrow> content_hash x \<notin> hs \<and> source_id x \<notin> ids"
proof (induction xs arbitrary: hs ids)
  case Nil
  then show ?case by simp
next
  case (Cons s rest)
  then show ?case
    by (fastforce simp: dedup_loop_Cons simp del: dedup_loop.simps split: if_splits)
qed

lemma dedup_loop_distinct:
  "distinct (map content_hash (dedup_loop hs ids [] xs)) \<and>
   distinct (map source_id (dedup_loop hs ids [] xs))"
proof (induction xs arbitrary: hs ids)
  case Nil
  show ?case by simp
next
  case (Cons s rest)
  let ?kept = "dedup_loop (insert (content_hash s) hs) (insert (source_id s) ids) [] rest"
  have "content_hash s \<notin> content_hash ` set ?kept" "source_id s \<notin> source_id ` set ?kept"
    using dedup_loop_keys_fresh [of _ "insert (content_hash s) hs" "insert (source_id s) ids" rest]
    by force+
  then show ?case
    using Cons.IH [of "insert (content_hash s) hs" "insert (source_id s) ids"] Cons.IH [of hs ids]
    by (simp add: dedup_loop_Cons del: dedup_loop.simps)
qed

lemma dedup_loop_covered:
  "x \<in> set xs \<Longrightarrow>
   content_hash x \<in> hs \<or> source_id x \<in> ids \<or>
   (\<exists>y \<in> set (dedup_loop hs ids [] xs). content_hash y = content_hash x \<or> source_id y = source_id x)"
proof (induction xs arbitrary: hs ids)
  case Nil
  then show ?case by simp
next
  case (Cons s rest)
  show ?case
  proof (cases "x = s")
    case True
    then show ?thesis
      by (auto simp: dedup_loop_Cons simp del: dedup_loop.simps)
  next
    case False
    with Cons.prems have mem: "x \<in> set rest" by simp
    show ?thesis
    proof (cases "content_hash s \<notin> hs \<and> source_id s \<notin> ids")
      case True
      from Cons.IH [OF mem, of "insert (content_hash s) hs" "insert (source_id s) ids"] True
      show ?thesis
        by (auto simp: dedup_loop_Cons simp del: dedup_loop.simps)
    next
      case False
      from Cons.IH [OF mem, of hs ids] False
      show ?thesis
        by (auto simp: dedup_loop_Cons simp del: dedup_loop.simps)
    qed
  qed
qed

lemma dedup_loop_fixed:
  "distinct (map content_hash xs) \<Longrightarrow> distinct (map source_id xs) \<Longrightarrow>
   \<forall>x \<in> set xs. content_hash x \<notin> hs \<and> source_id x \<notin> ids \<Longrightarrow>
   dedup_loop hs ids [] xs = xs"
proof (induction xs arbitrary: hs ids)
  case Nil
  show ?case by simp
next
  case (Cons s rest)
  have fresh: "content_hash x \<notin> insert (content_hash s) hs \<and>
      source_id x \<notin> insert (source_id s) ids" if "x \<in> set rest" for x
  proof -
    from that have "content_hash x \<in> content_hash ` set rest" "source_id x \<in> source_id ` set rest"
      by simp_all
    with Cons.prems(1,2) have "content_hash x \<noteq> content_hash s" "source_id x \<noteq> source_id s"
      by auto
    with Cons.prems(3) that show ?thesis by simp
  qed
  have "dedup_loop (insert (content_hash s) hs) (insert (source_id s) ids) [] rest = rest"
  proof (rule Cons.IH)
    show "distinct (map content_hash rest)" using Cons.prems(1) by simp
    show "distinct (map source_id rest)" using Cons.prems(2) by simp
    show "\<forall>x\<in>set rest. content_hash x \<notin> insert (content_hash s) hs \<and>
        source_id x \<notin> insert (source_id s) ids"
      using fresh by blast
  qed
  with Cons.prems show ?case
    by (simp add: dedup_loop_Cons del: dedup_loop.simps)
qed

lemma dedup_loop_snoc:
  "dedup_loop hs ids [] (xs @ [x]) =
     (let kept = dedup_loop hs ids [] xs in
      if content_hash x \<in> hs \<union> content_hash ` set kept \<or> source_id x \<in> ids \<union> source_id ` set kept
      then kept else kept @ [x])"
proof (induction xs arbitrary: hs ids)
  case Nil
  show ?case by (simp add: Let_def)
next
  case (Cons s rest)
  show ?case
    using Cons.IH [of "insert (content_hash s) hs" "insert (source_id s) ids"] Cons.IH [of hs ids]
    by (auto simp: dedup_loop_Cons Let_def simp del: dedup_loop.simps)
qed

text \<open>
  C10 (as the code has it). The result of \<^verbatim>\<open>deduplicate_sources\<close> is a subsequence of the
  input (so relative order is preserved), no two retained sources share a content hash or
  a source id, a source is retained exactly when neither of its keys is carried by a source
  retained before it, every input source shares a key with a retained one, and the function
  is idempotent.
\<close>

theorem deduplicate_sources_greedy:
  "subseq (deduplicate_sources xs) xs \<and>
   distinct (map content_hash (deduplicate_sources xs)) \<and>
   distinct (map source_id (deduplicate_sources xs)) \<and>
   deduplicate_sources (xs @ [x]) =
     (if content_hash x \<in> content_hash ` set (deduplicate_sources xs) \<or>
         source_id x \<in> source_id ` set (deduplicate_sources xs)
      then deduplicate_sources xs else deduplicate_sources xs @ [x]) \<and>
   (\<forall>y \<in> set xs. \<exists>z \<in> set (deduplicate_sources xs).
        content_hash z = content_hash y \<or> source_id z = source_id y) \<and>
   deduplicate_sources (deduplicate_sources xs) = deduplicate_sources xs"
proof -
  let ?d = "deduplicate_sources xs"
  have sub: "subseq ?d xs"
    unfolding deduplicate_sources_def by (rule dedup_loop_subseq)
  have dist: "distinct (map content_hash ?d) \<and> distinct (map source_id ?d)"
    unfolding deduplicate_sources_def by (rule dedup_loop_distinct)
  have snoc: "deduplicate_sources (xs @ [x]) =
     (if content_hash x \<in> content_hash ` set ?d \<or> source_id x \<in> source_id ` set ?d
      then ?d else ?d @ [x])"
    unfolding deduplicate_sources_def using dedup_loop_snoc [of "{}" "{}" xs x]
    by (simp add: Let_def)
  have cov: "\<forall>y \<in> set xs. \<exists>z \<in> set ?d. content_hash z = content_hash y \<or> source_id z = source_id y"
    unfolding deduplicate_sources_def using dedup_loop_covered [of _ xs "{}" "{}"] by simp
  have idem: "deduplicate_sources ?d = ?d"
    using dist dedup_loop_fixed [of ?d "{}" "{}"] unfolding deduplicate_sources_def by simp
  from sub dist snoc cov idem show ?thesis by simp
qed

theorem deduplicate_sources_greedy_witness:
  "deduplicate_sources [mk_source ''a'' ''h1'', mk_source ''b'' ''h1'', mk_source ''b'' ''h2'']
     = [mk_source ''a'' ''h1'', mk_source ''b'' ''h2''] \<and>
   mk_source ''b'' ''h1'' \<in> set [mk_source ''a'' ''h1'', mk_source ''b'' ''h1''] \<and>
   (\<exists>z \<in> set (deduplicate_sources [mk_source ''a'' ''h1'', mk_source ''b'' ''h1'']).
        content_hash z = content_hash (mk_source ''b'' ''h1'') \<or>
        source_id z = source_id (mk_source ''b'' ''h1''))"
  using deduplicate_sources_greedy
    [of "[mk_source ''a'' ''h1'', mk_source ''b'' ''h1'']" "mk_source ''b'' ''h2''"]
  by (simp add: deduplicate_sources_def mk_source_def)

text \<open>
  C10 (as stated) fails: in the input below the second source is dropped for its content
  hash, so its source id is never recorded and the third source, a later occurrence of that
  source id, is retained.
\<close>

theorem deduplicate_sources_first_occurrence_counterexample:
  "deduplicate_sources [mk_source ''a'' ''h1'', mk_source ''b'' ''h1'', mk_source ''b'' ''h2'']
     = [mk_source ''a'' ''h1'', mk_source ''b'' ''h2''] \<and>
   first_occurrences_spec {} {} [mk_source ''a'' ''h1'', mk_source ''b'' ''h1'', mk_source ''b'' ''h2'']
     = [mk_source ''a'' ''h1''] \<and>
   source_id (mk_source ''b'' ''h1'') = source_id (mk_source ''b'' ''h2'')"
  by (simp add: deduplicate_sources_def mk_source_def)

section \<open>Properties of the bibliography\<close>

lemma bibliography_loop_append:
  "bibliography_loop i acc xs = acc @ map (\<lambda>(k, s). mk_citation k s) (zip [i ..< i + length xs] xs)"
proof (induction xs arbitrary: i acc)
  case Nil
  show ?case by simp
next
  case (Cons s rest)
  have "[i ..< i + length (s # rest)] = i # [Suc i ..< Suc i + length rest]"
    by (subst upt_rec) simp
  with Cons.IH [of "Suc i" "acc @ [mk_citation i s]"] show ?case by simp
qed

lemma build_bibliography_zip:
  "build_bibliography xs = map (\<lambda>(k, s). mk_citation k s) (zip [1 ..< 1 + length xs] xs)"
  unfolding build_bibliography_def using bibliography_loop_append [of 1 "[]" xs] by simp

lemma build_bibliography_length: "length (build_bibliography xs) = length xs"
  unfolding build_bibliography_zip by (simp del: upt_Suc)

lemma build_bibliography_nth:
  assumes "k < length xs"
  shows "build_bibliography xs ! k = mk_citation (Suc k) (xs ! k)"
proof -
  have "[1 ..< 1 + length xs] ! k = 1 + k"
    using assms by (intro nth_upt) simp
  moreover have "k < length (zip [1 ..< 1 + length xs] xs)"
    using assms by simp
  ultimately show ?thesis
    unfolding build_bibliography_zip by (simp only: nth_map nth_zip length_zip length_upt, simp)
qed

lemma and_then_Inr:
  "and_then r f = Inr y \<longleftrightarrow> (\<exists>x. r = Inr x \<and> f x = Inr y)"
  by (cases r) (simp_all add: and_then_def)

lemma create_citation_map_bibliography:
  assumes "create_citation_map ar text xs phrases = Inr cm"
  shows "bibliography cm = build_bibliography xs"
  using assms unfolding create_citation_map_def and_then_Inr by auto

text \<open>
  Claim C4. When \<^verbatim>\<open>create_citation_map\<close> returns a citation map for a source list of length
  \<open>N\<close>, the bibliography has exactly \<open>N\<close> entries, their citation ids are \<open>1, ..., N\<close> in this
  order, and the entry at position \<open>k\<close>, whose citation id is \<open>k + 1\<close>, carries the source id,
  title, author, publication date, URL and fetch date of the source at position \<open>k\<close>.
\<close>

theorem bibliography_ids_sequential:
  assumes "create_citation_map ar text xs phrases = Inr cm"
  shows "length (bibliography cm) = length xs \<and>
   map citation_id (bibliography cm) = [1 ..< Suc (length xs)] \<and>
   (\<forall>k < length xs.
      citation_id (bibliography cm ! k) = Suc k \<and>
      cit_source_id (bibliography cm ! k) = source_id (xs ! k) \<and>
      cit_title (bibliography cm ! k) = title (xs ! k) \<and>
      cit_author (bibliography cm ! k) = author (xs ! k) \<and>
      cit_published_date (bibliography cm ! k) = published_date (xs ! k) \<and>
      cit_url (bibliography cm ! k) = url (xs ! k) \<and>
      accessed_date (bibliography cm ! k) = fetch_date (xs ! k))"
proof -
  have b: "bibliography cm = build_bibliography xs"
    using assms by (rule create_citation_map_bibliography)
  have len: "length (build_bibliography xs) = length xs"
    by (rule build_bibliography_length)
  have nth: "build_bibliography xs ! k = mk_citation (Suc k) (xs ! k)" if "k < length xs" for k
    using that by (rule build_bibliography_nth)
  have "map citation_id (build_bibliography xs) = [1 ..< Suc (length xs)]"
  proof (rule nth_equalityI)
    show "length (map citation_id (build_bibliography xs)) = length [1 ..< Suc (length xs)]"
      using len by (simp del: upt_Suc)
  next
    fix k assume "k < length (map citation_id (build_bibliography xs))"
    then have k: "k < length xs" using len by simp
    have "[1 ..< Suc (length xs)] ! k = 1 + k"
      using k by (intro nth_upt) simp
    then show "map citation_id (build_bibliography xs) ! k = [1 ..< Suc (length xs)] ! k"
      using len k nth [OF k] by (simp add: mk_citation_def del: upt_Suc)
  qed
  with len nth show ?thesis
    unfolding b by (simp add: mk_citation_def del: upt_Suc)
qed

lemma two_sources_map_returns:
  "\<not> isl (create_citation_map exact_arith ''A [1]. B.''
      [mk_source ''a'' ''h1'', mk_source ''b'' ''h2''] [])"
  by code_simp

theorem bibliography_ids_sequential_witness:
  "\<exists>cm. create_citation_map exact_arith ''A [1]. B.''
      [mk_source ''a'' ''h1'', mk_source ''b'' ''h2''] [] = Inr cm \<and>
     map citation_id (bibliography cm) = [1, 2] \<and>
     cit_source_id (bibliography cm ! 0) = ''a'' \<and>
     cit_source_id (bibliography cm ! 1) = ''b''"
proof -
  from two_sources_map_returns obtain cm where cm: "create_citation_map exact_arith ''A [1]. B.''
      [mk_source ''a'' ''h1'', mk_source ''b'' ''h2''] [] = Inr cm"
    by (cases "create_citation_map exact_arith ''A [1]. B.''
      [mk_source ''a'' ''h1'', mk_source ''b'' ''h2''] []") auto
  from bibliography_ids_sequential [OF cm]
  have "map citation_id (bibliography cm) = [1, 2]"
    and "cit_source_id (bibliography cm ! 0) = source_id ([mk_source ''a'' ''h1'', mk_source ''b'' ''h2''] ! 0)"
    and "cit_source_id (bibliography cm ! 1) = source_id ([mk_source ''a'' ''h1'', mk_source ''b'' ''h2''] ! 1)"
    by (simp_all add: upt_conv_Cons numeral_2_eq_2)
  with cm show ?thesis
    by (auto simp: mk_source_def)
qed

section \<open>Properties of the text helpers\<close>

lemma str_in_sublist: "str_in sub s \<longleftrightarrow> sublist sub s"
  by (induction s) (simp_all add: sublist_Cons_right)

lemma str_in_prefix: "prefix sub s \<Longrightarrow> str_in sub s"
  by (cases s) simp_all

lemma lower_append: "lower (a @ b) = lower a @ lower b"
  by (simp add: lower_def)

section \<open>Properties of the quality gate\<close>

lemma float_lt_NaN [simp]: "\<not> float_lt NaN b" "\<not> float_lt a NaN"
  by (cases b; simp) (cases a; simp)

lemma float_ge_iff: "a \<noteq> NaN \<Longrightarrow> b \<noteq> NaN \<Longrightarrow> float_ge a b \<longleftrightarrow> \<not> float_lt a b"
  by (simp add: float_ge_def float_le_def)

lemma float_le_iff: "a \<noteq> NaN \<Longrightarrow> b \<noteq> NaN \<Longrightarrow> float_le a b \<longleftrightarrow> \<not> float_gt a b"
  by (simp add: float_le_def float_gt_def)

lemma check_quality_gates_passed:
  "fst (check_quality_gates fmt m a b c) \<longleftrightarrow>
     \<not> float_lt (citation_coverage m) a \<and> \<not> float_gt (unsupported_claim_rate m) b \<and>
     \<not> float_lt (avg_fact_confidence m) c"
  by (auto simp: check_quality_gates_def check_coverage_def check_unsupported_def
      check_confidence_def check_reading_level_def)

lemma check_quality_gates_failures:
  "fst (snd (check_quality_gates fmt m a b c)) =
     (if float_lt (citation_coverage m) a then [coverage_failure fmt (citation_coverage m) a] else []) @
     (if float_gt (unsupported_claim_rate m) b
      then [unsupported_failure fmt (unsupported_claim_rate m) b] else []) @
     (if float_lt (avg_fact_confidence m) c then [confidence_failure fmt (avg_fact_confidence m) c] else [])"
  by (simp add: check_quality_gates_def check_coverage_def check_unsupported_def
      check_confidence_def check_reading_level_def)

lemma check_quality_gates_recommendations:
  "length (snd (snd (check_quality_gates fmt m a b c))) =
     length (fst (snd (check_quality_gates fmt m a b c))) +
     (if float_lt (reading_level m) (Float 50) \<or> float_gt (reading_level m) (Float 80) then 1 else 0)"
  by (simp add: check_quality_gates_def check_coverage_def check_unsupported_def
      check_confidence_def check_reading_level_def)

lemma check_quality_gates_reading_level:
  "fst (check_quality_gates fmt (m\<lparr>reading_level := r\<rparr>) a b c) = fst (check_quality_gates fmt m a b c) \<and>
   length (fst (snd (check_quality_gates fmt (m\<lparr>reading_level := r\<rparr>) a b c))) =
     length (fst (snd (check_quality_gates fmt m a b c)))"
  by (simp add: check_quality_gates_def check_coverage_def check_unsupported_def
      check_confidence_def check_reading_level_def)

text \<open>
  Claim C1, as the code has it. When none of the three metrics and of the three thresholds is
  NaN, \<^verbatim>\<open>check_quality_gates\<close> returns \<open>passed = True\<close> exactly when the coverage is at least
  its minimum, the unsupported claim rate at most its maximum and the confidence at least
  its minimum; for finite values this is the order of the reals, and the number of failure
  reasons is the number of thresholds violated. For all floats, \<open>passed\<close> is true exactly when
  none of the three tests \<^verbatim>\<open>coverage < min\<close>, \<^verbatim>\<open>rate > max\<close>, \<^verbatim>\<open>confidence < min\<close> holds, each
  test that holds adds one failure reason and one recommendation, and the reading level
  changes neither \<open>passed\<close> nor the failure reasons: below 50 or above 80 it adds one
  recommendation.
\<close>

theorem check_quality_gates_iff:
  "(fst (check_quality_gates fmt m a b c) \<longleftrightarrow>
      \<not> float_lt (citation_coverage m) a \<and> \<not> float_gt (unsupported_claim_rate m) b \<and>
      \<not> float_lt (avg_fact_confidence m) c) \<and>
   (NaN \<notin> {citation_coverage m, unsupported_claim_rate m, avg_fact_confidence m, a, b, c} \<longrightarrow>
      (fst (check_quality_gates fmt m a b c) \<longleftrightarrow>
         float_ge (citation_coverage m) a \<and> float_le (unsupported_claim_rate m) b \<and>
         float_ge (avg_fact_confidence m) c)) \<and>
   (citation_coverage m = Float cov \<and> unsupported_claim_rate m = Float unsup \<and>
    avg_fact_confidence m = Float conf \<and> a = Float min_cov \<and> b = Float max_unsup \<and>
    c = Float min_conf \<longrightarrow>
      (fst (check_quality_gates fmt m a b c) \<longleftrightarrow>
         cov \<ge> min_cov \<and> unsup \<le> max_unsup \<and> conf \<ge> min_conf) \<and>
      length (fst (snd (check_quality_gates fmt m a b c))) =
        (if cov < min_cov then 1 else 0) + (if unsup > max_unsup then 1 else 0) +
        (if conf < min_conf then 1 else 0)) \<and>
   length (fst (snd (check_quality_gates fmt m a b c))) = violations m a b c \<and>
   length (snd (snd (check_quality_gates fmt m a b c))) =
     violations m a b c +
     (if float_lt (reading_level m) (Float 50) \<or> float_gt (reading_level m) (Float 80) then 1 else 0) \<and>
   fst (check_quality_gates fmt (m\<lparr>reading_level := r\<rparr>) a b c) = fst (check_quality_gates fmt m a b c) \<and>
   length (fst (snd (check_quality_gates fmt (m\<lparr>reading_level := r\<rparr>) a b c))) =
     length (fst (snd (check_quality_gates fmt m a b c)))"
proof -
  have f: "length (fst (snd (check_quality_gates fmt m a b c))) = violations m a b c"
    by (simp add: check_quality_gates_failures violations_def)
  have "NaN \<notin> {citation_coverage m, unsupported_claim_rate m, avg_fact_confidence m, a, b, c} \<longrightarrow>
      (fst (check_quality_gates fmt m a b c) \<longleftrightarrow>
         float_ge (citation_coverage m) a \<and> float_le (unsupported_claim_rate m) b \<and>
         float_ge (avg_fact_confidence m) c)"
    by (auto simp: check_quality_gates_passed float_ge_def float_le_def float_gt_def)
  moreover have "citation_coverage m = Float cov \<and> unsupported_claim_rate m = Float unsup \<and>
    avg_fact_confidence m = Float conf \<and> a = Float min_cov \<and> b = Float max_unsup \<and>
    c = Float min_conf \<longrightarrow>
      (fst (check_quality_gates fmt m a b c) \<longleftrightarrow>
         cov \<ge> min_cov \<and> unsup \<le> max_unsup \<and> conf \<ge> min_conf) \<and>
      length (fst (snd (check_quality_gates fmt m a b c))) =
        (if cov < min_cov then 1 else 0) + (if unsup > max_unsup then 1 else 0) +
        (if conf < min_conf then 1 else 0)"
    by (auto simp: check_quality_gates_passed check_quality_gates_failures float_gt_def)
  ultimately show ?thesis
    using check_quality_gates_passed [of fmt m a b c] f
      check_quality_gates_recommendations [of fmt m a b c]
      check_quality_gates_reading_level [where fmt=fmt and m=m and r=r and a=a and b=b and c=c]
    by simp
qed

theorem check_quality_gates_iff_witness:
  "fst (check_quality_gates fmt_demo
      (mk_metrics (Float (98/100)) (Float (2/100)) (Float (85/100)) (Float 65))
      (Float (95/100)) (Float (5/100)) (Float (7/10))) \<and>
   fst (snd (check_quality_gates fmt_demo
      (mk_metrics (Float (98/100)) (Float (2/100)) (Float (85/100)) (Float 65))
      (Float (95/100)) (Float (5/100)) (Float (7/10)))) = []"
  using check_quality_gates_iff [of fmt_demo
      "mk_metrics (Float (98/100)) (Float (2/100)) (Float (85/100)) (Float 65)"
      "Float (95/100)" "Float (5/100)" "Float (7/10)" "98/100" "2/100" "85/100"
      "95/100" "5/100" "7/10" "Float 65"]
  by (simp add: mk_metrics_def violations_def float_gt_def)

text \<open>
  Claim C1 as stated fails at NaN. With a coverage that is NaN the test \<^verbatim>\<open>coverage < min\<close> is
  false, so the gate passes without a failure reason, although the coverage is not at least
  its minimum.
\<close>

theorem check_quality_gates_nan_passes:
  "fst (check_quality_gates fmt_demo
      (mk_metrics NaN (Float (2/100)) (Float (85/100)) (Float 65))
      (Float (95/100)) (Float (5/100)) (Float (7/10))) \<and>
   fst (snd (check_quality_gates fmt_demo
      (mk_metrics NaN (Float (2/100)) (Float (85/100)) (Float 65))
      (Float (95/100)) (Float (5/100)) (Float (7/10)))) = [] \<and>
   \<not> float_ge (citation_coverage (mk_metrics NaN (Float (2/100)) (Float (85/100)) (Float 65)))
      (Float (95/100))"
  by (simp add: check_quality_gates_passed check_quality_gates_failures mk_metrics_def
      float_gt_def float_ge_def float_le_def)

section \<open>Properties of the judge\<close>

text \<open>
  C3. \<^verbatim>\<open>should_retry\<close> is false for a decision that passed, false when the decision's retry
  count has reached \<open>max_retries\<close>, and otherwise true exactly when some failure reason,
  lower-cased, contains one of "citation coverage", "unsupported claims", "fact confidence".
\<close>

theorem should_retry_iff:
  "should_retry d max_retries \<longleftrightarrow>
     \<not> passed d \<and> retry_count d < max_retries \<and>
     (\<exists>failure \<in> set (failure_reasons d).
        sublist ''citation coverage'' (lower failure) \<or>
        sublist ''unsupported claims'' (lower failure) \<or>
        sublist ''fact confidence'' (lower failure))"
  by (auto simp: should_retry_def is_fixable_def fixable_issues_def list_ex_iff str_in_sublist)

theorem should_retry_iff_witness:
  "should_retry (mk_decision False [''Citation coverage below threshold''] 0) 2 \<and>
   \<not> should_retry (mk_decision False [''Citation coverage below threshold''] 2) 2 \<and>
   \<not> should_retry (mk_decision True [] 0) 2 \<and>
   \<not> should_retry (mk_decision False [''Reading level too low''] 0) 2 \<and>
   (\<exists>failure \<in> set (failure_reasons (mk_decision False [''Citation coverage below threshold''] 0)).
      sublist ''citation coverage'' (lower failure) \<or>
      sublist ''unsupported claims'' (lower failure) \<or>
      sublist ''fact confidence'' (lower failure))"
proof -
  have a: "should_retry (mk_decision False [''Citation coverage below threshold''] 0) 2"
    by code_simp
  have b: "\<not> should_retry (mk_decision False [''Citation coverage below threshold''] 2) 2"
    by code_simp
  have c: "\<not> should_retry (mk_decision True [] 0) 2"
    by code_simp
  have d: "\<not> should_retry (mk_decision False [''Reading level too low''] 0) 2"
    by code_simp
  from a b c d should_retry_iff [of "mk_decision False [''Citation coverage below threshold''] 0" 2]
  show ?thesis by blast
qed

section \<open>Properties of the citation validator\<close>

lemma ids_loop_filter:
  "ids_loop valid_ids mapping issues ids =
     issues @ map (\<lambda>i. invalid_issue i mapping) (filter (\<lambda>i. i \<notin> valid_ids) ids)"
  by (induction ids arbitrary: issues) simp_all

lemma issues_loop_concat:
  "issues_loop valid_ids issues mappings =
     issues @ concat (map (\<lambda>m. map (\<lambda>i. invalid_issue i m)
       (filter (\<lambda>i. i \<notin> valid_ids) (citation_ids m))) mappings)"
  by (induction mappings arbitrary: issues) (simp_all add: ids_loop_filter)

lemma validate_citations_unfold:
  "validate_citations cm =
     concat (map (\<lambda>m. map (\<lambda>i. invalid_issue i m)
        (filter (\<lambda>i. i \<notin> citation_id ` set (bibliography cm)) (citation_ids m)))
        (sentence_mappings cm))
     @ (if uncited cm = [] then [] else [uncited_issue (length (uncited cm))])"
  by (simp add: validate_citations_def issues_loop_concat Let_def)

lemma map_sentence_untagged:
  "\<not> str_in common_tag sent \<Longrightarrow> sentence_ids text a b = Inr ids \<Longrightarrow>
     map_sentence text phrases (sent, a, b) =
       Inr \<lparr>sentence = sent, start_char = a, end_char = b, citation_ids = ids,
        is_common_knowledge = list_ex (\<lambda>phrase. str_in (lower phrase) (lower sent)) phrases\<rparr>"
  by (simp add: map_sentence_def and_then_def Let_def)

lemma bad_citation_sentences:
  "split_into_sentences bad_citation_text =
     Inr [(''Cited [1].'', 0, 10), (''Bad [99].'', 11, 20)]"
  by code_simp

lemma bad_citation_ids:
  "sentence_ids bad_citation_text 0 10 = Inr [1]"
  "sentence_ids bad_citation_text 11 20 = Inr [99]"
  by code_simp+

lemma bad_citation_tags:
  "\<not> str_in common_tag ''Cited [1].''"
  "\<not> str_in common_tag ''Bad [99].''"
  by code_simp+

lemma bad_citation_excerpt:
  "invalid_issue 99 \<lparr>sentence = ''Bad [99].'', start_char = 11, end_char = 20,
     citation_ids = [99], is_common_knowledge = c\<rparr> = bad_citation_issue"
  by (cases c) (simp, code_simp, simp, code_simp)

lemma bad_citation_validated:
  "\<exists>cm. create_citation_map ar bad_citation_text [src] phrases = Inr cm \<and>
        validate_citations cm = [bad_citation_issue]"
proof -
  define c1 where "c1 = list_ex (\<lambda>phrase. str_in (lower phrase) (lower ''Cited [1].'')) phrases"
  define c2 where "c2 = list_ex (\<lambda>phrase. str_in (lower phrase) (lower ''Bad [99].'')) phrases"
  define m1 where "m1 = \<lparr>sentence = ''Cited [1].'', start_char = 0, end_char = 10,
     citation_ids = [1], is_common_knowledge = c1\<rparr>"
  define m2 where "m2 = \<lparr>sentence = ''Bad [99].'', start_char = 11, end_char = 20,
     citation_ids = [99], is_common_knowledge = c2\<rparr>"
  define cm where "cm = \<lparr>bibliography = build_bibliography [src], sentence_mappings = [m1, m2],
     coverage_rate = Float (round_float ar (real 2 / real 2))\<rparr>"
  have s1: "map_sentence bad_citation_text phrases (''Cited [1].'', 0, 10) = Inr m1"
    unfolding m1_def c1_def
    by (rule map_sentence_untagged [OF bad_citation_tags(1) bad_citation_ids(1)])
  have s2: "map_sentence bad_citation_text phrases (''Bad [99].'', 11, 20) = Inr m2"
    unfolding m2_def c2_def
    by (rule map_sentence_untagged [OF bad_citation_tags(2) bad_citation_ids(2)])
  have ids: "citation_ids m1 = [1]" "citation_ids m2 = [99]"
    by (simp_all add: m1_def m2_def)
  have ml: "mapping_loop bad_citation_text phrases [] 0
      [(''Cited [1].'', 0, 10), (''Bad [99].'', 11, 20)] = Inr ([m1, m2], 2)"
    by (simp add: s1 s2 ids and_then_def)
  have c: "create_citation_map ar bad_citation_text [src] phrases = Inr cm"
    by (simp add: create_citation_map_def bad_citation_sentences ml cm_def and_then_def
        del: mapping_loop.simps)
  have bib: "citation_id ` set (bibliography cm) = {1}"
    by (simp add: cm_def build_bibliography_def mk_citation_def)
  have unc: "uncited cm = []"
    by (simp add: uncited_def cm_def ids)
  have "validate_citations cm = [invalid_issue 99 m2]"
    unfolding validate_citations_unfold bib unc by (simp add: cm_def ids)
  also have "invalid_issue 99 m2 = bad_citation_issue"
    unfolding m2_def by (rule bad_citation_excerpt)
  finally show ?thesis
    using c by blast
qed

text \<open>
  Claim C7. The result of \<^verbatim>\<open>validate_citations\<close> is, in the order of the sentence mappings
  and of the ids within each, one message for every occurrence of a citation id that is not
  the id of a bibliography entry; the message carries the id and the first 50 characters of
  the sentence. It is followed by one aggregate message, carrying their number, exactly when
  some mapping has neither a citation id nor the common-knowledge flag. For the text
  \<^verbatim>\<open>Cited [1]. Bad [99].\<close> mapped against one source, whatever the source and the
  common-knowledge phrases are, the result is the single message about the id 99.
\<close>

theorem validate_citations_issues:
  "validate_citations cm =
     concat (map (\<lambda>m. map (\<lambda>i.
          ''Invalid citation ID ['' @ str_nat i @ ''] in sentence: '' @ take 50 (sentence m) @ ''...'')
        (filter (\<lambda>i. i \<notin> citation_id ` set (bibliography cm)) (citation_ids m)))
        (sentence_mappings cm))
     @ (if filter (\<lambda>m. citation_ids m = [] \<and> \<not> is_common_knowledge m) (sentence_mappings cm) = []
        then []
        else [str_nat (length (filter (\<lambda>m. citation_ids m = [] \<and> \<not> is_common_knowledge m)
                 (sentence_mappings cm))) @
              '' sentences lack citations and are not marked as common knowledge''])
   \<and> (\<exists>cm. create_citation_map ar ''Cited [1]. Bad [99].'' [src] phrases = Inr cm \<and>
        validate_citations cm = [''Invalid citation ID [99] in sentence: Bad [99]....''])"
  using validate_citations_unfold [of cm] bad_citation_validated [of ar src phrases]
  unfolding invalid_issue_def uncited_issue_def uncited_def bad_citation_text_def
    bad_citation_issue_def
  by (rule conjI)

text \<open>An instance with two uncited sentences and a sentence longer than the excerpt.\<close>

lemma validate_citations_example:
  "map_sum id validate_citations (create_citation_map exact_arith
      ''One. Two. This third sentence is a long one, well beyond fifty characters [7].''
      [mk_source ''a'' ''h1''] []) =
   Inr [''Invalid citation ID [7] in sentence: This third sentence is a long one, well beyond fif...'',
        ''2 sentences lack citations and are not marked as common knowledge'']"
  by code_simp

section \<open>Properties of the retry node\<close>

lemma getitem_Inr:
  "getitem key v = Inr x \<longleftrightarrow> v = Some x"
  by (cases v) (simp_all add: getitem_def)

lemma get_or_case: "get_or v d = (case v of None \<Rightarrow> d | Some x \<Rightarrow> x)"
  by (simp add: get_or_def)

lemma retry_delta_keys:
  "PipelineState\<lparr>source_pack := Some p, state_retry_count := Some k,
       state_should_retry := Some b, logs := Some l\<rparr> =
     \<lparr>run_id = None, topic_spec = None, started_at = None, outline = None,
       source_pack = Some p, indexed_chunks = None, draft_sections = None, verdicts = None,
       article = None, seo_metadata = None, gate_decision = None, quality_metrics = None,
       state_retry_count = Some k, state_should_retry = Some b, artifacts = None,
       logs = Some l, run_metrics = None, completed_at = None, status = None, error = None\<rparr>"
  by (simp add: PipelineState_def)

lemma merge_retry_delta:
  "merge state \<lparr>run_id = None, topic_spec = None, started_at = None, outline = None,
       source_pack = Some p, indexed_chunks = None, draft_sections = None, verdicts = None,
       article = None, seo_metadata = None, gate_decision = None, quality_metrics = None,
       state_retry_count = Some k, state_should_retry = Some b, artifacts = None,
       logs = Some l, run_metrics = None, completed_at = None, status = None, error = None\<rparr> =
     state\<lparr>source_pack := Some p, state_retry_count := Some k,
       state_should_retry := Some b, logs := Some l\<rparr>"
  by (simp add: merge_def update_key_def)

text \<open>
  Claim C8. \<^verbatim>\<open>retry_node\<close> returns a delta exactly when the keys \<^verbatim>\<open>run_id\<close>, \<^verbatim>\<open>outline\<close> and
  \<^verbatim>\<open>source_pack\<close> are present and the sourcer returns. The delta then holds four keys and no
  other: the source pack, whose source list is the old list followed by the additional
  sources; the retry count, one more than the old one (one when the key was absent); the
  flag \<^verbatim>\<open>should_retry\<close>, false; and the log, the old entries (none when the key was absent)
  followed by one new entry. Merging the delta changes these four keys of the state and no
  other.
\<close>

theorem retry_node_frame:
  "retry_node w t state = Inr delta \<longleftrightarrow>
     (\<exists>rid planned pack more.
        run_id state = Some rid \<and> outline state = Some planned \<and>
        source_pack state = Some pack \<and>
        harvest_sources w t planned (Some 5) (Some 20) = Inr more \<and>
        delta = \<lparr>run_id = None, topic_spec = None, started_at = None, outline = None,
          source_pack = Some (pack\<lparr>sources := sources pack @ sources more\<rparr>),
          indexed_chunks = None, draft_sections = None, verdicts = None, article = None,
          seo_metadata = None, gate_decision = None, quality_metrics = None,
          state_retry_count = Some ((case state_retry_count state of None \<Rightarrow> 0 | Some n \<Rightarrow> n) + 1),
          state_should_retry = Some False,
          artifacts = None,
          logs = Some ((case logs state of None \<Rightarrow> [] | Some l \<Rightarrow> l) @
            [retry_log ((case state_retry_count state of None \<Rightarrow> 0 | Some n \<Rightarrow> n) + 1)
               (length (sources more))]),
          run_metrics = None, completed_at = None, status = None, error = None\<rparr> \<and>
        merge state delta = state\<lparr>
          source_pack := Some (pack\<lparr>sources := sources pack @ sources more\<rparr>),
          state_retry_count := Some ((case state_retry_count state of None \<Rightarrow> 0 | Some n \<Rightarrow> n) + 1),
          state_should_retry := Some False,
          logs := Some ((case logs state of None \<Rightarrow> [] | Some l \<Rightarrow> l) @
            [retry_log ((case state_retry_count state of None \<Rightarrow> 0 | Some n \<Rightarrow> n) + 1)
               (length (sources more))])\<rparr>)"
  unfolding retry_node_def and_then_Inr getitem_Inr Let_def get_or_case retry_delta_keys
  using merge_retry_delta by (auto simp del: pipeline_state.simps)

lemma retry_state_returns: "\<not> isl (retry_node failing_env 9 retry_state)"
  by code_simp

theorem retry_node_frame_witness:
  "\<exists>delta. retry_node failing_env 9 retry_state = Inr delta \<and>
     state_retry_count delta = Some 2 \<and>
     logs delta = Some [''first'', retry_log 2 1] \<and>
     map_option sources (source_pack delta) =
       Some [mk_source ''s1'' ''h1'', mk_source ''s1'' ''h1''] \<and>
     state_retry_count (merge retry_state delta) = Some 2 \<and>
     status (merge retry_state delta) = Some ''running''"
proof -
  from retry_state_returns obtain delta where d: "retry_node failing_env 9 retry_state = Inr delta"
    by (cases "retry_node failing_env 9 retry_state") auto
  have h: "harvest_sources failing_env 9 planned (Some 5) (Some 20) = Inr demo_pack" for planned
    by (simp add: failing_env_def demo_env_def)
  from retry_node_frame [of failing_env 9 retry_state delta] d h
  have "state_retry_count delta = Some 2 \<and>
     logs delta = Some [''first'', retry_log 2 1] \<and>
     map_option sources (source_pack delta) =
       Some [mk_source ''s1'' ''h1'', mk_source ''s1'' ''h1''] \<and>
     state_retry_count (merge retry_state delta) = Some 2 \<and>
     status (merge retry_state delta) = Some ''running''"
    by (auto simp: retry_state_def demo_state_def create_initial_state_def PipelineState_def
        demo_pack_def)
  with d show ?thesis by blast
qed

section \<open>Properties of the timeout of the pipeline\<close>

lemma slow_run_times_out:
  "snd (ainvoke slow_env (real_of_int (max_pipeline_time_seconds (settings slow_env))) demo_state)
     = Some TimeoutError"
  by code_simp

text \<open>
  Claim C9, as the code has it. When the execution of the graph ends with a timeout after
  the nodes of \<open>history\<close>, \<^verbatim>\<open>run_pipeline\<close> returns the state it was called with, in which the
  status is \<^verbatim>\<open>failed\<close>, the error is the message naming the number of seconds allowed and
  the completion time is set; every other key has the value it had in the state passed to
  \<^verbatim>\<open>run_pipeline\<close>.
\<close>

theorem run_pipeline_timeout:
  assumes "run_id state = Some rid"
    and "ainvoke w (real_of_int (max_pipeline_time_seconds (settings w))) state =
           (history, Some TimeoutError)"
  shows "run_pipeline w state =
     Inr (state\<lparr>status := Some ''failed'',
            error := Some (Some (''Pipeline exceeded timeout of '' @
              str_int (max_pipeline_time_seconds (settings w)) @ '' seconds'')),
            completed_at := Some (Some (utcnow w (length history)))\<rparr>)"
  using assms
  by (simp add: run_pipeline_def and_then_def getitem_def Let_def timeout_message_def)

theorem run_pipeline_timeout_witness:
  "\<exists>r. run_pipeline slow_env demo_state = Inr r \<and> status r = Some ''failed'' \<and>
     error r = Some (Some ''Pipeline exceeded timeout of 600 seconds'') \<and>
     completed_at r \<noteq> None \<and> topic_spec r = topic_spec demo_state \<and> logs r = logs demo_state"
proof -
  have a: "run_id demo_state = Some ''run''"
    by code_simp
  have b: "ainvoke slow_env (real_of_int (max_pipeline_time_seconds (settings slow_env))) demo_state =
      (fst (ainvoke slow_env (real_of_int (max_pipeline_time_seconds (settings slow_env))) demo_state),
       Some TimeoutError)"
    using slow_run_times_out by (simp add: prod_eq_iff)
  have c: "''Pipeline exceeded timeout of '' @
      str_int (max_pipeline_time_seconds (settings slow_env)) @ '' seconds'' =
      ''Pipeline exceeded timeout of 600 seconds''"
    by code_simp
  from run_pipeline_timeout [OF a b] c show ?thesis
    by simp
qed

text \<open>
  Claim C9 as stated fails. In the run below the plan node completes, so that the state held
  by the graph has an outline and one log entry, and the source node is cut off by the
  timeout. The state returned has no outline and no log entry: it is built from the state
  passed to \<^verbatim>\<open>run_pipeline\<close>, not from the one accumulated by the nodes.
\<close>

theorem run_pipeline_timeout_drops_accumulated:
  "snd (ainvoke slow_env (real_of_int (max_pipeline_time_seconds (settings slow_env))) demo_state)
     = Some TimeoutError \<and>
   map fst (fst (ainvoke slow_env (real_of_int (max_pipeline_time_seconds (settings slow_env)))
     demo_state)) = [Plan] \<and>
   outline (accumulated demo_state
     (fst (ainvoke slow_env (real_of_int (max_pipeline_time_seconds (settings slow_env)))
        demo_state))) = Some (Outline ''o'') \<and>
   logs (accumulated demo_state
     (fst (ainvoke slow_env (real_of_int (max_pipeline_time_seconds (settings slow_env)))
        demo_state))) = Some [plan_log] \<and>
   map_sum id (\<lambda>r. (status r, outline r, logs r)) (run_pipeline slow_env demo_state) =
     Inr (Some ''failed'', None, Some [])"
  by code_simp

section \<open>Properties of the coverage rate\<close>

lemma mapping_loop_count:
  "mapping_loop text phrases acc c triples = Inr (ms, n) \<Longrightarrow>
     \<exists>new. ms = acc @ new \<and> length new = length triples \<and>
       n = c + length (filter (\<lambda>m. citation_ids m \<noteq> [] \<or> is_common_knowledge m) new)"
proof (induction triples arbitrary: acc c)
  case Nil
  then show ?case by simp
next
  case (Cons triple rest)
  from Cons.prems obtain mapping where m: "map_sentence text phrases triple = Inr mapping"
    and loop: "mapping_loop text phrases (acc @ [mapping])
       (if citation_ids mapping \<noteq> [] \<or> is_common_knowledge mapping then c + 1 else c) rest =
       Inr (ms, n)"
    by (auto simp: and_then_Inr)
  from Cons.IH [OF loop] obtain new where new: "ms = (acc @ [mapping]) @ new"
    "length new = length rest"
    "n = (if citation_ids mapping \<noteq> [] \<or> is_common_knowledge mapping then c + 1 else c) +
       length (filter (\<lambda>m. citation_ids m \<noteq> [] \<or> is_common_knowledge m) new)"
    by blast
  show ?case
  proof (intro exI conjI)
    show "ms = acc @ (mapping # new)" using new(1) by simp
    show "length (mapping # new) = length (triple # rest)" using new(2) by simp
    show "n = c + length (filter (\<lambda>m. citation_ids m \<noteq> [] \<or> is_common_knowledge m) (mapping # new))"
      using new(3) by simp
  qed
qed

lemma create_citation_map_counts:
  assumes "create_citation_map ar text xs phrases = Inr cm"
  shows "\<exists>sentences. split_into_sentences text = Inr sentences \<and>
     length (sentence_mappings cm) = length sentences \<and>
     coverage_rate cm =
       (if sentence_mappings cm = [] then Float 0
        else Float (round_float ar
          (real (length (filter (\<lambda>m. citation_ids m \<noteq> [] \<or> is_common_knowledge m)
                   (sentence_mappings cm))) /
           real (length (sentence_mappings cm)))))"
proof -
  from assms obtain sentences counted where s: "split_into_sentences text = Inr sentences"
    and l: "mapping_loop text phrases [] 0 sentences = Inr counted"
    and cm: "cm = \<lparr>bibliography = build_bibliography xs, sentence_mappings = fst counted,
       coverage_rate = (if length sentences > 0
         then Float (round_float ar (real (snd counted) / real (length sentences)))
         else Float 0)\<rparr>"
    unfolding create_citation_map_def and_then_Inr by auto
  obtain ms n where c: "counted = (ms, n)" by (cases counted)
  from mapping_loop_count [OF l [unfolded c]]
  have len: "length ms = length sentences"
    and n: "n = length (filter (\<lambda>m. citation_ids m \<noteq> [] \<or> is_common_knowledge m) ms)"
    by auto
  have "coverage_rate cm =
       (if sentence_mappings cm = [] then Float 0
        else Float (round_float ar
          (real (length (filter (\<lambda>m. citation_ids m \<noteq> [] \<or> is_common_knowledge m)
                   (sentence_mappings cm))) /
           real (length (sentence_mappings cm)))))"
    using len n by (auto simp: cm c)
  with s len show ?thesis by (auto simp: cm c)
qed

lemma create_citation_map_no_sentences:
  assumes "split_into_sentences text = Inr []"
  shows "\<exists>cm. create_citation_map ar text xs phrases = Inr cm \<and> sentence_mappings cm = [] \<and>
     coverage_rate cm = Float 0"
  using assms by (simp add: create_citation_map_def and_then_def)

lemma split_into_sentences_empty: "split_into_sentences [] = Inr []"
  by code_simp

text \<open>
  Claim C5. Whenever \<^verbatim>\<open>create_citation_map\<close> returns, there is one sentence mapping for each
  sentence of the text, and the coverage rate is the number of mappings that have a citation
  id or the common-knowledge flag, divided by the number of mappings and rounded to a float
  as the division of Python does. When the text yields no sentence, and for the empty text
  in particular, \<^verbatim>\<open>create_citation_map\<close> returns, with no mapping and the coverage \<^verbatim>\<open>0.0\<close>.
\<close>

theorem create_citation_map_coverage:
  "(create_citation_map ar text xs phrases = Inr cm \<longrightarrow>
      (\<exists>sentences. split_into_sentences text = Inr sentences \<and>
         length (sentence_mappings cm) = length sentences) \<and>
      coverage_rate cm =
        (if sentence_mappings cm = [] then Float 0
         else Float (round_float ar
           (real (length (filter (\<lambda>m. citation_ids m \<noteq> [] \<or> is_common_knowledge m)
                    (sentence_mappings cm))) /
            real (length (sentence_mappings cm)))))) \<and>
   (split_into_sentences text = Inr [] \<longrightarrow>
      (\<exists>cm. create_citation_map ar text xs phrases = Inr cm \<and> sentence_mappings cm = [] \<and>
         coverage_rate cm = Float 0)) \<and>
   (\<exists>cm. create_citation_map ar [] xs phrases = Inr cm \<and> sentence_mappings cm = [] \<and>
      coverage_rate cm = Float 0)"
  using create_citation_map_counts [of ar "text" xs phrases cm]
    create_citation_map_no_sentences [of "text" ar xs phrases]
    create_citation_map_no_sentences [OF split_into_sentences_empty, of ar xs phrases]
  by blast

lemma half_cited_mappings:
  "map_sum id (\<lambda>cm. map (\<lambda>m. (citation_ids m, is_common_knowledge m)) (sentence_mappings cm))
     (create_citation_map exact_arith ''A [1]. B.'' [mk_source ''a'' ''h1''] []) =
   Inr [([1], False), ([], False)]"
  by code_simp

theorem create_citation_map_coverage_witness:
  "\<exists>cm. create_citation_map exact_arith ''A [1]. B.'' [mk_source ''a'' ''h1''] [] = Inr cm \<and>
     length (sentence_mappings cm) = 2 \<and> coverage_rate cm = Float (1 / 2)"
proof -
  from half_cited_mappings obtain cm where
    cm: "create_citation_map exact_arith ''A [1]. B.'' [mk_source ''a'' ''h1''] [] = Inr cm"
    and ms: "map (\<lambda>m. (citation_ids m, is_common_knowledge m)) (sentence_mappings cm) =
      [([1], False), ([], False)]"
    by (cases "create_citation_map exact_arith ''A [1]. B.'' [mk_source ''a'' ''h1''] []") auto
  from ms obtain m1 m2 where m: "sentence_mappings cm = [m1, m2]" "citation_ids m1 = [1]"
    "citation_ids m2 = []" "\<not> is_common_knowledge m2"
    by (auto simp: map_eq_Cons_conv)
  from create_citation_map_coverage [of exact_arith "''A [1]. B.''" "[mk_source ''a'' ''h1'']" "[]" cm]
    cm m
  have "coverage_rate cm = Float (1 / 2)"
    by (simp add: exact_arith_def)
  with cm m(1) show ?thesis by simp
qed

end
